theory Spec2Isabelle
  imports Main "HOL-Library.AList" "HOL-Library.Word"
begin

section \<open>Python values and exceptions\<close>

text \<open>
  Python values: None, booleans, integers, floats, strings, lists, tuples and
  dictionaries with string keys. \<^verbatim>\<open>json.loads\<close> and \<^verbatim>\<open>yaml.safe_load\<close> return all of these
  but tuples, which a dictionary the exporter gets from the SDK may hold. A dictionary is
  an association list in insertion order, as a Python dict keeps it. A float is kept as
  the 64 bits of the C double behind it; the code never computes with one. A character
  of a \<^typ>\<open>string\<close> stands for one code point of the Python text.
\<close>

datatype pyval =
    PNone
  | PBool bool
  | PInt int
  | PFloat "64 word"
  | PStr string
  | PList "pyval list"
  | PTuple "pyval list"
  | PDict "(string \<times> pyval) list"

type_synonym pydict = "(string \<times> pyval) list"

text \<open>
  The exceptions the code distinguishes, all below \<^verbatim>\<open>Exception\<close>. \<open>KeyError\<close> carries the
  missing key; \<open>MarkupError\<close> is what the console raises on markup it cannot render;
  \<open>OtherError\<close> is any other exception a library call raises, with its text.
\<close>

datatype exn =
    KeyError string
  | TypeError
  | AttributeError
  | FileNotFoundError
  | JSONDecodeError
  | MarkupError
  | OtherError string

text \<open>Truth value of an object, as \<^verbatim>\<open>if x:\<close> and \<^verbatim>\<open>not x\<close> test it.\<close>

fun truthy :: "pyval \<Rightarrow> bool" where
  "truthy PNone = False"
| "truthy (PBool b) = b"
| "truthy (PInt i) = (i \<noteq> 0)"
| "truthy (PFloat w) = (take_bit 63 w \<noteq> 0)"
| "truthy (PStr s) = (s \<noteq> [])"
| "truthy (PList xs) = (xs \<noteq> [])"
| "truthy (PTuple xs) = (xs \<noteq> [])"
| "truthy (PDict d) = (d \<noteq> [])"

text \<open>\<^verbatim>\<open>d.get(k, default)\<close> on a dictionary.\<close>

definition dict_get :: "pydict \<Rightarrow> string \<Rightarrow> pyval \<Rightarrow> pyval" where
  "dict_get d k dflt = (case map_of d k of Some v \<Rightarrow> v | None \<Rightarrow> dflt)"

text \<open>\<^verbatim>\<open>v[k]\<close> with a string key: \<open>KeyError\<close> on a dictionary without the key,
  \<open>TypeError\<close> on anything that is not a dictionary.\<close>

fun getitem :: "pyval \<Rightarrow> string \<Rightarrow> exn + pyval" where
  "getitem (PDict d) k = (case map_of d k of Some v \<Rightarrow> Inr v | None \<Rightarrow> Inl (KeyError k))"
| "getitem _ k = Inl TypeError"

text \<open>\<^verbatim>\<open>v.get(k, default)\<close>: \<open>AttributeError\<close> on a value without a \<open>get\<close> method.\<close>

fun py_get :: "pyval \<Rightarrow> string \<Rightarrow> pyval \<Rightarrow> exn + pyval" where
  "py_get (PDict d) k dflt = Inr (dict_get d k dflt)"
| "py_get _ k dflt = Inl AttributeError"

text \<open>
  \<^verbatim>\<open>str(v)\<close>: a string is its own text; the text of any other value is the interpreter's,
  taken as the parameter \<open>repr\<close>.
\<close>

fun py_str :: "(pyval \<Rightarrow> string) \<Rightarrow> pyval \<Rightarrow> string" where
  "py_str repr (PStr s) = s"
| "py_str repr v = repr v"

section \<open>The importer's field filter\<close>

text \<open>The three hardcoded allow-lists of \<^verbatim>\<open>_filter_entity_fields\<close> (import.py).\<close>

definition data_products_allowed :: "string list" where
  "data_products_allowed =
     [''name'', ''displayName'', ''description'', ''fullyQualifiedName'',
      ''owners'', ''experts'', ''domain'', ''assets'', ''tags'', ''extension'']"

definition domains_allowed :: "string list" where
  "domains_allowed =
     [''name'', ''displayName'', ''description'', ''fullyQualifiedName'',
      ''domainType'', ''parent'', ''owners'', ''experts'', ''tags'', ''extension'']"

definition teams_allowed :: "string list" where
  "teams_allowed =
     [''name'', ''displayName'', ''description'', ''fullyQualifiedName'',
      ''teamType'', ''email'', ''parents'', ''users'', ''owners'', ''defaultRoles'']"

text \<open>\<^verbatim>\<open>{k: v for k, v in entity_data.items() if k in allowed_fields}\<close>; \<^verbatim>\<open>.items()\<close>
  raises \<open>AttributeError\<close> on a value that is not a dictionary.\<close>

fun keep_allowed :: "string list \<Rightarrow> pyval \<Rightarrow> exn + pydict" where
  "keep_allowed allowed (PDict d) = Inr (filter (\<lambda>(k, v). k \<in> set allowed) d)"
| "keep_allowed allowed _ = Inl AttributeError"

text \<open>The conversion of the \<open>domain\<close> field of a data product from a dictionary to a
  string.\<close>

definition convert_domain :: "(pyval \<Rightarrow> string) \<Rightarrow> pydict \<Rightarrow> pydict" where
  "convert_domain repr filtered_data =
     (case map_of filtered_data ''domain'' of
        Some (PDict dm) \<Rightarrow>
          AList.update ''domain''
            (dict_get dm ''fullyQualifiedName''
               (PStr (py_str repr (dict_get dm ''name'' (PStr '''')))))
            filtered_data
      | _ \<Rightarrow> filtered_data)"

definition filter_entity_fields ::
  "(pyval \<Rightarrow> string) \<Rightarrow> pyval \<Rightarrow> string \<Rightarrow> exn + pyval" where
  "filter_entity_fields repr entity_data entity_type =
     (if entity_type = ''data_products'' then
        (case keep_allowed data_products_allowed entity_data of
           Inl e \<Rightarrow> Inl e
         | Inr filtered_data \<Rightarrow> Inr (PDict (convert_domain repr filtered_data)))
      else if entity_type = ''domains'' then
        (case keep_allowed domains_allowed entity_data of
           Inl e \<Rightarrow> Inl e
         | Inr filtered_data \<Rightarrow> Inr (PDict filtered_data))
      else if entity_type = ''teams'' then
        (case keep_allowed teams_allowed entity_data of
           Inl e \<Rightarrow> Inl e
         | Inr filtered_data \<Rightarrow> Inr (PDict filtered_data))
      else Inr entity_data)"

section \<open>Configuration and environment overrides\<close>

text \<open>
  The configuration is the nested dictionary \<^verbatim>\<open>yaml.safe_load\<close> returns. Both tools keep
  it and the SDK client in \<^verbatim>\<open>self\<close>; the exporter adds its statistics, the importer its
  statistics and its error list. The client is a state \<open>'c\<close> of the remote service, which
  every call may change.
\<close>

record 'c tool =
  config :: pyval
  om_client :: 'c

record 'c exporter = "'c tool" +
  export_stats :: "(string \<times> nat) list"

record 'c importer = "'c tool" +
  import_stats :: "(string \<times> nat) list"
  errors :: "string list"

definition bind_exn :: "exn + 'a \<Rightarrow> ('a \<Rightarrow> exn + 'b) \<Rightarrow> exn + 'b" where
  "bind_exn m f = (case m of Inl e \<Rightarrow> Inl e | Inr x \<Rightarrow> f x)"

text \<open>\<^verbatim>\<open>cfg[a][k]\<close>.\<close>

definition getitem2 :: "pyval \<Rightarrow> string \<Rightarrow> string \<Rightarrow> exn + pyval" where
  "getitem2 cfg a k = bind_exn (getitem cfg a) (\<lambda>inner. getitem inner k)"

text \<open>\<^verbatim>\<open>v[k] = x\<close>: \<open>TypeError\<close> on a value that is not a dictionary.\<close>

fun setitem :: "pyval \<Rightarrow> string \<Rightarrow> pyval \<Rightarrow> exn + pyval" where
  "setitem (PDict d) k x = Inr (PDict (AList.update k x d))"
| "setitem _ k x = Inl TypeError"

text \<open>\<^verbatim>\<open>cfg[a][k] = x\<close> and \<^verbatim>\<open>cfg[a][b][k] = x\<close>: the inner dictionary is looked up, changed
  in place, and so changed inside the outer one.\<close>

definition setitem2 :: "pyval \<Rightarrow> string \<Rightarrow> string \<Rightarrow> pyval \<Rightarrow> exn + pyval" where
  "setitem2 cfg a k x =
     bind_exn (getitem cfg a) (\<lambda>inner.
     bind_exn (setitem inner k x) (\<lambda>inner'. setitem cfg a inner'))"

definition setitem3 :: "pyval \<Rightarrow> string \<Rightarrow> string \<Rightarrow> string \<Rightarrow> pyval \<Rightarrow> exn + pyval" where
  "setitem3 cfg a b k x =
     bind_exn (getitem cfg a) (\<lambda>inner.
     bind_exn (setitem2 inner b k x) (\<lambda>inner'. setitem cfg a inner'))"

text \<open>
  \<^verbatim>\<open>str.lower()\<close> on the code points a \<^typ>\<open>char\<close> holds: A-Z and the Latin-1 capitals
  (all of 0xC0-0xDE but the multiplication sign 0xD7) move up by 32.
\<close>

definition lower_char :: "char \<Rightarrow> char" where
  "lower_char c =
     (let n = (of_char c :: nat) in
      if (65 \<le> n \<and> n \<le> 90) \<or> (192 \<le> n \<and> n \<le> 222 \<and> n \<noteq> 215)
      then char_of (n + 32) else c)"

definition lower :: "string \<Rightarrow> string" where
  "lower s = map lower_char s"

text \<open>\<^verbatim>\<open>if os.getenv(var): ...\<close>: the override \<open>f\<close> runs when the variable is set to a
  non-empty string.\<close>

definition override ::
  "(string \<Rightarrow> string option) \<Rightarrow> string \<Rightarrow> (string \<Rightarrow> pyval \<Rightarrow> exn + pyval) \<Rightarrow> pyval
   \<Rightarrow> exn + pyval" where
  "override getenv var f cfg =
     (case getenv var of
        None \<Rightarrow> Inr cfg
      | Some s \<Rightarrow> if s \<noteq> [] then f s cfg else Inr cfg)"

text \<open>\<^verbatim>\<open>OpenMetadataImporter._apply_env_overrides\<close> (import.py), on the configuration.\<close>

definition apply_env_overrides :: "(string \<Rightarrow> string option) \<Rightarrow> pyval \<Rightarrow> exn + pyval" where
  "apply_env_overrides getenv cfg =
     bind_exn (override getenv ''OPENMETADATA_SERVER_URL''
       (\<lambda>s c. setitem2 c ''openmetadata'' ''server_url'' (PStr s)) cfg) (\<lambda>c1.
     bind_exn (override getenv ''OPENMETADATA_JWT_TOKEN''
       (\<lambda>s c. setitem3 c ''openmetadata'' ''auth'' ''jwt_token'' (PStr s)) c1) (\<lambda>c2.
     bind_exn (override getenv ''IMPORT_INPUT_DIR''
       (\<lambda>s c. setitem2 c ''import'' ''input_dir'' (PStr s)) c2) (\<lambda>c3.
     bind_exn (override getenv ''IMPORT_UPDATE_EXISTING''
       (\<lambda>s c. setitem2 c ''import'' ''update_existing'' (PBool (lower s = ''true''))) c3) (\<lambda>c4.
     bind_exn (override getenv ''IMPORT_SKIP_ON_ERROR''
       (\<lambda>s c. setitem2 c ''import'' ''skip_on_error'' (PBool (lower s = ''true''))) c4) (\<lambda>c5.
     override getenv ''LOG_LEVEL''
       (\<lambda>s c. setitem2 c ''logging'' ''level'' (PStr s)) c5)))))"

text \<open>A configuration with the sections the overrides write to, each a dictionary.\<close>

fun is_dict :: "pyval \<Rightarrow> bool" where
  "is_dict (PDict d) = True"
| "is_dict _ = False"

definition has_section :: "pyval \<Rightarrow> string \<Rightarrow> bool" where
  "has_section cfg a = (case getitem cfg a of Inr v \<Rightarrow> is_dict v | Inl e \<Rightarrow> False)"

definition import_sections :: "pyval \<Rightarrow> bool" where
  "import_sections cfg =
     (has_section cfg ''openmetadata''
      \<and> (case getitem cfg ''openmetadata'' of Inr om \<Rightarrow> has_section om ''auth'' | Inl e \<Rightarrow> False)
      \<and> has_section cfg ''import''
      \<and> has_section cfg ''logging'')"

section \<open>Files\<close>

text \<open>
  A path is a directory and a file name in it (\<^verbatim>\<open>dir / name\<close>). A path holds no file; or
  something \<^verbatim>\<open>open\<close> refuses, with the exception it raises (a directory, a file without
  permission); or it cannot be reached at all, so that \<^verbatim>\<open>exists\<close> and \<^verbatim>\<open>open\<close> raise (a
  name too long, a directory that cannot be searched); or it holds a text.
\<close>

type_synonym path = "string \<times> string"

datatype file_state = Absent | Blocked exn | Unreachable exn | Text string

type_synonym filesystem = "path \<Rightarrow> file_state"

text \<open>\<^verbatim>\<open>filepath.exists()\<close>, \<^verbatim>\<open>filepath.open('r')\<close> with the reading of the whole text, and
  \<^verbatim>\<open>filepath.open('w')\<close>.\<close>

definition exists_path :: "filesystem \<Rightarrow> path \<Rightarrow> exn + bool" where
  "exists_path fs p =
     (case fs p of
        Absent \<Rightarrow> Inr False
      | Unreachable e \<Rightarrow> Inl e
      | Blocked e \<Rightarrow> Inr True
      | Text s \<Rightarrow> Inr True)"

definition open_read :: "filesystem \<Rightarrow> path \<Rightarrow> exn + string" where
  "open_read fs p =
     (case fs p of
        Absent \<Rightarrow> Inl FileNotFoundError
      | Unreachable e \<Rightarrow> Inl e
      | Blocked e \<Rightarrow> Inl e
      | Text s \<Rightarrow> Inr s)"

definition open_write :: "filesystem \<Rightarrow> path \<Rightarrow> exn option" where
  "open_write fs p =
     (case fs p of
        Absent \<Rightarrow> None
      | Unreachable e \<Rightarrow> Some e
      | Blocked e \<Rightarrow> Some e
      | Text s \<Rightarrow> None)"

definition ndjson_path :: "string \<Rightarrow> string \<Rightarrow> path" where
  "ndjson_path dir name = (dir, name @ ''.ndjson'')"

abbreviation LF :: char where "LF \<equiv> CHR 0x0A"
abbreviation CR :: char where "CR \<equiv> CHR 0x0D"

text \<open>
  The lines a text file yields when iterated, read with universal newlines: a line ends
  at \<open>\n\<close>, \<open>\r\n\<close> or \<open>\r\<close>, each handed over as \<open>\n\<close>; the last line may have no end.
  The first argument is the line read so far.
\<close>

fun file_lines :: "string \<Rightarrow> string \<Rightarrow> string list" where
  "file_lines cur [] = (if cur = [] then [] else [cur])"
| "file_lines cur [c] = (if c = LF \<or> c = CR then [cur @ [LF]] else [cur @ [c]])"
| "file_lines cur (c # d # cs) =
     (if c = LF then (cur @ [LF]) # file_lines [] (d # cs)
      else if c = CR then
        (if d = LF then (cur @ [LF]) # file_lines [] cs
         else (cur @ [LF]) # file_lines [] (d # cs))
      else file_lines (cur @ [c]) (d # cs))"

text \<open>The white space \<^verbatim>\<open>str.strip()\<close> removes, among the code points a \<^typ>\<open>char\<close>
  holds.\<close>

definition isspace :: "char \<Rightarrow> bool" where
  "isspace c = ((of_char c :: nat) \<in> {9, 10, 11, 12, 13, 28, 29, 30, 31, 32, 133, 160})"

definition strip :: "string \<Rightarrow> string" where
  "strip s = rev (dropWhile isspace (rev (dropWhile isspace s)))"

section \<open>Console output\<close>

text \<open>
  Every \<^verbatim>\<open>console.print\<close> of the methods below, and the task the progress display of
  \<^verbatim>\<open>_import_entity_type\<close> and \<^verbatim>\<open>export_all\<close> renders when it is added, by what the call
  puts into the markup text. The console itself is a parameter: the exception the call
  raises, if any. The library raises \<open>MarkupError\<close> on a text with a closing tag that
  closes nothing, which a value put into the text may bring.
\<close>

datatype message =
    ParseErrorMsg nat path exn
  | FileNotFoundMsg path
  | ReadErrorMsg path exn
  | NotImplementedMsg string
  | ImportErrorMsg string
  | SkippingMsg string
  | NoFileMsg string path
  | ImportingMsg string
  | NoEntitiesMsg path
  | ImportProgressMsg string nat
  | ImportedMsg nat nat string
  | ExportedMsg nat string path
  | WriteErrorMsg string exn
  | ExportingMsg string
  | RetrievedMsg nat string
  | ExportErrorMsg string exn
  | StartingMsg
  | ServerMsg pyval
  | ApiMethodMsg
  | ExportProgressMsg nat
  | SummarySavedMsg path
  | SummaryTableMsg "(string \<times> nat) list"
  | CompletedMsg
  | TotalExportedMsg nat
  | OutputDirectoryMsg string

type_synonym console = "message \<Rightarrow> exn option"

text \<open>
  A method returns a value or raises, and leaves a state either way. \<open>saying out m s k\<close>
  prints \<open>m\<close>: when the print raises, the method ends there with the state \<open>s\<close>; otherwise
  it goes on as \<open>k\<close>.
\<close>

definition saying :: "console \<Rightarrow> message \<Rightarrow> 's \<Rightarrow> (exn + 'a) \<times> 's \<Rightarrow> (exn + 'a) \<times> 's" where
  "saying out m s k = (case out m of Some e \<Rightarrow> (Inl e, s) | None \<Rightarrow> k)"

record tool_env =
  console :: console

section \<open>Loading a line-delimited file (import.py)\<close>

text \<open>
  The loop of \<^verbatim>\<open>_load_ndjson\<close> over \<^verbatim>\<open>enumerate(f, 1)\<close>. \<open>loads\<close> is \<^verbatim>\<open>json.loads\<close>: the value,
  or the exception it raises. A \<open>JSONDecodeError\<close> is caught at the line and printed;
  anything else, the exception of that print too, leaves the loop.
\<close>

fun load_lines ::
  "console \<Rightarrow> (string \<Rightarrow> exn + 'e) \<Rightarrow> path \<Rightarrow> nat \<Rightarrow> string list \<Rightarrow> 'e list \<Rightarrow> exn + 'e list" where
  "load_lines out loads filepath line_num [] entities = Inr entities"
| "load_lines out loads filepath line_num (line # rest) entities =
     (let line' = strip line in
      if line' \<noteq> [] then
        (case loads line' of
           Inr entity \<Rightarrow> load_lines out loads filepath (line_num + 1) rest (entities @ [entity])
         | Inl JSONDecodeError \<Rightarrow>
             (case out (ParseErrorMsg line_num filepath JSONDecodeError) of
                Some e \<Rightarrow> Inl e
              | None \<Rightarrow> load_lines out loads filepath (line_num + 1) rest entities)
         | Inl e \<Rightarrow> Inl e)
      else load_lines out loads filepath (line_num + 1) rest entities)"

text \<open>The outer \<^verbatim>\<open>try\<close> block of \<^verbatim>\<open>_load_ndjson\<close>, and the method with its two handlers, each
  of which prints and returns the empty list.\<close>

definition load_ndjson_body ::
  "console \<Rightarrow> (string \<Rightarrow> exn + 'e) \<Rightarrow> filesystem \<Rightarrow> path \<Rightarrow> exn + 'e list" where
  "load_ndjson_body out loads fs filepath =
     (case open_read fs filepath of
        Inl e \<Rightarrow> Inl e
      | Inr s \<Rightarrow> load_lines out loads filepath 1 (file_lines [] s) [])"

definition load_ndjson ::
  "console \<Rightarrow> (string \<Rightarrow> exn + 'e) \<Rightarrow> filesystem \<Rightarrow> path \<Rightarrow> exn + 'e list" where
  "load_ndjson out loads fs filepath =
     (case load_ndjson_body out loads fs filepath of
        Inr entities \<Rightarrow> Inr entities
      | Inl FileNotFoundError \<Rightarrow>
          (case out (FileNotFoundMsg filepath) of Some e \<Rightarrow> Inl e | None \<Rightarrow> Inr [])
      | Inl e \<Rightarrow>
          (case out (ReadErrorMsg filepath e) of Some e' \<Rightarrow> Inl e' | None \<Rightarrow> Inr []))"

text \<open>
  The claims about loading, in their own words. A line is blank when nothing is left of
  it after stripping; it is valid when \<open>loads\<close> returns a value for it and malformed when
  \<open>loads\<close> raises \<open>JSONDecodeError\<close>. \<open>valid_entities\<close> are the values of the valid lines,
  in file order.
\<close>

definition blank :: "string \<Rightarrow> bool" where
  "blank line = (strip line = [])"

definition valid_or_malformed :: "(string \<Rightarrow> exn + 'e) \<Rightarrow> string \<Rightarrow> bool" where
  "valid_or_malformed loads line =
     (case loads (strip line) of Inr v \<Rightarrow> True | Inl e \<Rightarrow> e = JSONDecodeError)"

definition malformed :: "(string \<Rightarrow> exn + 'e) \<Rightarrow> string \<Rightarrow> bool" where
  "malformed loads line =
     (case loads (strip line) of Inr v \<Rightarrow> False | Inl e \<Rightarrow> e = JSONDecodeError)"

definition valid_entities :: "(string \<Rightarrow> exn + 'e) \<Rightarrow> string list \<Rightarrow> 'e list" where
  "valid_entities loads ls =
     concat (map (\<lambda>line. case loads (strip line) of Inr v \<Rightarrow> [v] | Inl e \<Rightarrow> [])
       (filter (\<lambda>line. \<not> blank line) ls))"

section \<open>Importing entities (import.py)\<close>

text \<open>
  What the importer takes from outside, next to the console: \<open>repr\<close>, the text of a value
  that is not a string; \<open>exn_text\<close>, the text \<^verbatim>\<open>{e}\<close> of an exception; \<open>json_loads\<close>; and
  \<open>create_or_update\<close>, the request constructor and the client method of one entity type,
  called one after the other on the keyword arguments: the exception either raises, if
  any, and the client after the call.
\<close>

datatype create_request =
    CreateDataProductRequest
  | CreateDomainRequest
  | CreateTeamRequest
  | CreateUserRequest
  | CreatePolicyRequest

record 'c import_env = tool_env +
  repr :: "pyval \<Rightarrow> string"
  exn_text :: "exn \<Rightarrow> string"
  json_loads :: "string \<Rightarrow> exn + pyval"
  create_or_update :: "create_request \<Rightarrow> pydict \<Rightarrow> 'c \<Rightarrow> exn option \<times> 'c"

text \<open>\<^verbatim>\<open>request = Create...Request(**filtered_data); self.om_client.create_or_update...(request);
  return True\<close>. Unpacking \<^verbatim>\<open>**\<close> raises \<open>TypeError\<close> on a value that is not a mapping.\<close>

definition submit ::
  "'c import_env \<Rightarrow> create_request \<Rightarrow> pyval \<Rightarrow> 'c \<Rightarrow> (exn + bool) \<times> 'c" where
  "submit env req filtered_data c =
     (case filtered_data of
        PDict kwargs \<Rightarrow>
          (case create_or_update env req kwargs c of
             (None, c') \<Rightarrow> (Inr True, c')
           | (Some e, c') \<Rightarrow> (Inl e, c'))
      | _ \<Rightarrow> (Inl TypeError, c))"

text \<open>The \<^verbatim>\<open>try\<close> block of \<^verbatim>\<open>_import_entity\<close>.\<close>

definition import_entity_body ::
  "'c import_env \<Rightarrow> pyval \<Rightarrow> string \<Rightarrow> 'c \<Rightarrow> (exn + bool) \<times> 'c" where
  "import_entity_body env entity_data entity_type c =
     (case filter_entity_fields (repr env) entity_data entity_type of
        Inl e \<Rightarrow> (Inl e, c)
      | Inr filtered_data \<Rightarrow>
          if entity_type = ''data_products'' then submit env CreateDataProductRequest filtered_data c
          else if entity_type = ''domains'' then submit env CreateDomainRequest filtered_data c
          else if entity_type = ''teams'' then submit env CreateTeamRequest filtered_data c
          else if entity_type = ''users'' then submit env CreateUserRequest filtered_data c
          else if entity_type = ''policies'' then submit env CreatePolicyRequest filtered_data c
          else saying (console env) (NotImplementedMsg entity_type) c (Inr False, c))"

definition error_msg :: "'c import_env \<Rightarrow> string \<Rightarrow> exn \<Rightarrow> string" where
  "error_msg env entity_type e = ''Error importing '' @ entity_type @ '' entity: '' @ exn_text env e"

text \<open>
  \<^verbatim>\<open>_import_entity\<close>: the \<^verbatim>\<open>try\<close> block and its handler. The handler appends the message,
  then reads \<^verbatim>\<open>self.config['import'].get('skip_on_error', True)\<close>, which may raise itself,
  then prints the message and raises the exception again, or prints it and returns False.
\<close>

definition import_entity ::
  "'c import_env \<Rightarrow> pyval \<Rightarrow> string \<Rightarrow> 'c importer \<Rightarrow> (exn + bool) \<times> 'c importer" where
  "import_entity env entity_data entity_type st =
     (case import_entity_body env entity_data entity_type (om_client st) of
        (Inr ok, c') \<Rightarrow> (Inr ok, st\<lparr>om_client := c'\<rparr>)
      | (Inl e, c') \<Rightarrow>
          (let msg = error_msg env entity_type e;
               st' = st\<lparr>om_client := c', errors := errors st @ [msg]\<rparr> in
           case bind_exn (getitem (config st) ''import'')
                  (\<lambda>imp. py_get imp ''skip_on_error'' (PBool True)) of
             Inl e' \<Rightarrow> (Inl e', st')
           | Inr flag \<Rightarrow>
               if \<not> truthy flag then saying (console env) (ImportErrorMsg msg) st' (Inl e, st')
               else saying (console env) (SkippingMsg msg) st' (Inr False, st')))"

text \<open>The \<^verbatim>\<open>for entity in entities\<close> loop of \<^verbatim>\<open>_import_entity_type\<close>, with the success
  count so far.\<close>

fun import_entities ::
  "'c import_env \<Rightarrow> string \<Rightarrow> pyval list \<Rightarrow> nat \<Rightarrow> 'c importer \<Rightarrow> (exn + nat) \<times> 'c importer" where
  "import_entities env entity_type [] success_count st = (Inr success_count, st)"
| "import_entities env entity_type (entity # rest) success_count st =
     (case import_entity env entity entity_type st of
        (Inl e, st') \<Rightarrow> (Inl e, st')
      | (Inr ok, st') \<Rightarrow>
          import_entities env entity_type rest
            (if ok then success_count + 1 else success_count) st')"

text \<open>\<^verbatim>\<open>_import_entity_type\<close>. The progress display renders its task when the task is
  added.\<close>

definition import_entity_type ::
  "'c import_env \<Rightarrow> filesystem \<Rightarrow> string \<Rightarrow> string \<Rightarrow> 'c importer \<Rightarrow> (exn + nat) \<times> 'c importer" where
  "import_entity_type env fs entity_type input_dir st =
     (let filepath = ndjson_path input_dir entity_type in
      case exists_path fs filepath of
        Inl e \<Rightarrow> (Inl e, st)
      | Inr found \<Rightarrow>
          if \<not> found then saying (console env) (NoFileMsg entity_type filepath) st (Inr 0, st)
          else
            saying (console env) (ImportingMsg entity_type) st
              (case load_ndjson (console env) (json_loads env) fs filepath of
                 Inl e \<Rightarrow> (Inl e, st)
               | Inr entities \<Rightarrow>
                   if entities = [] then
                     saying (console env) (NoEntitiesMsg filepath) st (Inr 0, st)
                   else
                     saying (console env) (ImportProgressMsg entity_type (length entities)) st
                       (case import_entities env entity_type entities 0 st of
                          (Inl e, st') \<Rightarrow> (Inl e, st')
                        | (Inr success_count, st') \<Rightarrow>
                            saying (console env)
                              (ImportedMsg success_count (length entities) entity_type) st'
                              (Inr success_count, st'))))"

section \<open>Writing a line-delimited file (export.py)\<close>

text \<open>
  \<^verbatim>\<open>json.dump(obj, f, ...)\<close> writes the text of \<open>obj\<close> to the file, or raises an exception
  after it has written a part of it.
\<close>

datatype dump_result = Dumped string | DumpRaised string exn

text \<open>The loop of \<^verbatim>\<open>_write_ndjson\<close>: the exception that ended it, if any, and the text
  written to the file.\<close>

fun dump_entities :: "('e \<Rightarrow> dump_result) \<Rightarrow> 'e list \<Rightarrow> string \<Rightarrow> exn option \<times> string" where
  "dump_entities dump [] text = (None, text)"
| "dump_entities dump (entity # rest) text =
     (case dump entity of
        Dumped s \<Rightarrow> dump_entities dump rest (text @ s @ [LF])
      | DumpRaised part e \<Rightarrow> (Some e, text @ part))"

text \<open>The \<^verbatim>\<open>try\<close> block of \<^verbatim>\<open>_write_ndjson\<close>, which prints once the file is closed, and the
  method with its handler, which prints and returns 0.\<close>

definition write_ndjson_body ::
  "console \<Rightarrow> ('e \<Rightarrow> dump_result) \<Rightarrow> 'e list \<Rightarrow> string \<Rightarrow> string \<Rightarrow> filesystem
   \<Rightarrow> (exn + nat) \<times> filesystem" where
  "write_ndjson_body out dump entities filename output_dir fs =
     (let filepath = ndjson_path output_dir filename in
      case open_write fs filepath of
        Some e \<Rightarrow> (Inl e, fs)
      | None \<Rightarrow>
          (case dump_entities dump entities [] of
             (Some e, text) \<Rightarrow> (Inl e, fs(filepath := Text text))
           | (None, text) \<Rightarrow>
               saying out (ExportedMsg (length entities) filename filepath)
                 (fs(filepath := Text text))
                 (Inr (length entities), fs(filepath := Text text))))"

definition write_ndjson ::
  "console \<Rightarrow> ('e \<Rightarrow> dump_result) \<Rightarrow> 'e list \<Rightarrow> string \<Rightarrow> string \<Rightarrow> filesystem
   \<Rightarrow> (exn + nat) \<times> filesystem" where
  "write_ndjson out dump entities filename output_dir fs =
     (case write_ndjson_body out dump entities filename output_dir fs of
        (Inl e, fs') \<Rightarrow> saying out (WriteErrorMsg filename e) fs' (Inr 0, fs')
      | (Inr n, fs') \<Rightarrow> (Inr n, fs'))"

text \<open>
  What the round trip asks of the JSON library for an entity: \<^verbatim>\<open>json.dump\<close> writes it as
  a text without a line break that starts and ends with a character other than white
  space (a JSON object starts with a brace and ends with one), and \<^verbatim>\<open>json.loads\<close> gives
  the entity back from that text.
\<close>

definition round_trips :: "('e \<Rightarrow> dump_result) \<Rightarrow> (string \<Rightarrow> exn + 'e) \<Rightarrow> 'e \<Rightarrow> bool" where
  "round_trips dump loads entity =
     (case dump entity of
        Dumped s \<Rightarrow>
          s \<noteq> [] \<and> LF \<notin> set s \<and> CR \<notin> set s \<and> \<not> isspace (hd s) \<and> \<not> isspace (last s)
          \<and> loads s = Inr entity
      | DumpRaised part e \<Rightarrow> False)"

section \<open>Exporting entities (export.py)\<close>

datatype entity_class =
    Team | User | Policy | Domain_class | Glossary | GlossaryTerm
  | Database | DatabaseSchema | Table_class | DataProduct

text \<open>
  An object the SDK lists, by what the conversion asks of it: \<^verbatim>\<open>model_dump()\<close> and
  \<^verbatim>\<open>dict()\<close> where the object has the method (the dictionary, or the exception the call
  raises), \<^verbatim>\<open>__dict__\<close> where it has one, and what \<^verbatim>\<open>dict(entity)\<close> gives. The
  dictionaries \<open>'e\<close> hold whatever objects the SDK puts there.
\<close>

record 'e sdk_object =
  model_dump :: "(exn + 'e) option"
  dict_method :: "(exn + 'e) option"
  dunder_dict :: "'e option"
  dict_of :: "exn + 'e"

text \<open>
  What the exporter takes from outside, next to the console: \<open>list_entities\<close>, the
  client's listing call (it raises, or returns a response with or without the attribute
  \<open>entities\<close>), \<open>json_dump\<close> for an entity line, \<open>json_dump_indent\<close> for the summary, \<open>mkdir\<close>
  and the clock.
\<close>

record ('c, 'e) export_env = tool_env +
  list_entities :: "entity_class \<Rightarrow> 'c \<Rightarrow> (exn + 'e sdk_object list option) \<times> 'c"
  json_dump :: "'e \<Rightarrow> dump_result"
  json_dump_indent :: "pyval \<Rightarrow> dump_result"
  mkdir :: "string \<Rightarrow> filesystem \<Rightarrow> exn + filesystem"
  now_isoformat :: string

definition entity_dict :: "'e sdk_object \<Rightarrow> exn + 'e" where
  "entity_dict entity =
     (case model_dump entity of
        Some r \<Rightarrow> r
      | None \<Rightarrow>
          (case dict_method entity of
             Some r \<Rightarrow> r
           | None \<Rightarrow>
               (case dunder_dict entity of
                  Some d \<Rightarrow> Inr d
                | None \<Rightarrow> dict_of entity)))"

fun entity_dicts :: "'e sdk_object list \<Rightarrow> 'e list \<Rightarrow> exn + 'e list" where
  "entity_dicts [] acc = Inr acc"
| "entity_dicts (entity # rest) acc =
     (case entity_dict entity of
        Inl e \<Rightarrow> Inl e
      | Inr d \<Rightarrow> entity_dicts rest (acc @ [d]))"

text \<open>
  The \<^verbatim>\<open>try\<close> block of \<^verbatim>\<open>_export_entity_type\<close>: first up to the converted dictionaries
  (a print, the listing call, a print, the conversion), then with the call of
  \<^verbatim>\<open>_write_ndjson\<close>, whose value it returns.
\<close>

definition export_entity_dicts ::
  "('c, 'e) export_env \<Rightarrow> string \<Rightarrow> entity_class \<Rightarrow> 'c \<Rightarrow> (exn + 'e list) \<times> 'c" where
  "export_entity_dicts env entity_name entity_class c =
     saying (console env) (ExportingMsg entity_name) c
       (case list_entities env entity_class c of
          (Inl e, c') \<Rightarrow> (Inl e, c')
        | (Inr entities_response, c') \<Rightarrow>
            (let entities = (case entities_response of Some es \<Rightarrow> es | None \<Rightarrow> []) in
             saying (console env) (RetrievedMsg (length entities) entity_name) c'
               (entity_dicts entities [], c')))"

definition export_entity_type_body ::
  "('c, 'e) export_env \<Rightarrow> string \<Rightarrow> entity_class \<Rightarrow> string \<Rightarrow> 'c \<Rightarrow> filesystem
   \<Rightarrow> (exn + nat) \<times> 'c \<times> filesystem" where
  "export_entity_type_body env entity_name entity_class output_dir c fs =
     (case export_entity_dicts env entity_name entity_class c of
        (Inl e, c') \<Rightarrow> (Inl e, c', fs)
      | (Inr dicts, c') \<Rightarrow>
          (case write_ndjson (console env) (json_dump env) dicts entity_name output_dir fs of
             (r, fs') \<Rightarrow> (r, c', fs')))"

text \<open>\<^verbatim>\<open>_export_entity_type\<close>: the handler prints and returns 0.\<close>

definition export_entity_type ::
  "('c, 'e) export_env \<Rightarrow> string \<Rightarrow> entity_class \<Rightarrow> string \<Rightarrow> 'c \<Rightarrow> filesystem
   \<Rightarrow> (exn + nat) \<times> 'c \<times> filesystem" where
  "export_entity_type env entity_name entity_class output_dir c fs =
     (case export_entity_type_body env entity_name entity_class output_dir c fs of
        (Inl e, c', fs') \<Rightarrow>
          saying (console env) (ExportErrorMsg entity_name e) (c', fs') (Inr 0, c', fs')
      | (Inr n, c', fs') \<Rightarrow> (Inr n, c', fs'))"


text \<open>The dictionary \<^verbatim>\<open>entity_mappings\<close> of \<^verbatim>\<open>export_all\<close>.\<close>

definition entity_mappings :: "(string \<times> entity_class) list" where
  "entity_mappings =
     [(''teams'', Team), (''users'', User), (''policies'', Policy), (''domains'', Domain_class),
      (''glossaries'', Glossary), (''glossary_terms'', GlossaryTerm), (''databases'', Database),
      (''database_schemas'', DatabaseSchema), (''tables'', Table_class),
      (''data_products'', DataProduct)]"

text \<open>
  \<^verbatim>\<open>entities_to_export\<close> of \<^verbatim>\<open>export_all\<close>: from the selection when there is a non-empty
  one (a dictionary built name by name, so a repeated name keeps its first place), from
  the flags of \<^verbatim>\<open>self.config['export']['entities']\<close> otherwise.
\<close>

definition entities_to_export ::
  "string list option \<Rightarrow> pyval \<Rightarrow> exn + (string \<times> entity_class) list" where
  "entities_to_export selected_entities cfg =
     (if selected_entities \<noteq> None \<and> selected_entities \<noteq> Some [] then
        Inr (foldl (\<lambda>d name.
               case map_of entity_mappings name of
                 Some entity_class \<Rightarrow> AList.update name entity_class d
               | None \<Rightarrow> d)
             [] (case selected_entities of Some names \<Rightarrow> names | None \<Rightarrow> []))
      else
        bind_exn (getitem2 cfg ''export'' ''entities'') (\<lambda>export_config.
          case export_config of
            PDict flags \<Rightarrow>
              Inr (filter (\<lambda>(name, entity_class). truthy (dict_get flags name (PBool False)))
                     entity_mappings)
          | _ \<Rightarrow> Inl AttributeError))"

text \<open>The enable flag of an entity type is true in the flags of the configuration.\<close>

definition enabled :: "pydict \<Rightarrow> string \<Rightarrow> bool" where
  "enabled flags name = (case map_of flags name of Some v \<Rightarrow> truthy v | None \<Rightarrow> False)"

text \<open>
  The loop of \<^verbatim>\<open>export_all\<close> over \<^verbatim>\<open>entities_to_export.items()\<close>, with the total so far:
  the total at the end, or the exception that \<^verbatim>\<open>_export_entity_type\<close> let through, which
  ends the loop before the count of that type is recorded.
\<close>

fun export_entities ::
  "('c, 'e) export_env \<Rightarrow> (string \<times> entity_class) list \<Rightarrow> string \<Rightarrow> nat \<Rightarrow> 'c exporter
   \<Rightarrow> filesystem \<Rightarrow> (exn + nat) \<times> 'c exporter \<times> filesystem" where
  "export_entities env [] output_dir total_exported st fs = (Inr total_exported, st, fs)"
| "export_entities env ((entity_name, entity_class) # rest) output_dir total_exported st fs =
     (case export_entity_type env entity_name entity_class output_dir (om_client st) fs of
        (Inl e, c', fs') \<Rightarrow> (Inl e, st\<lparr>om_client := c'\<rparr>, fs')
      | (Inr count, c', fs') \<Rightarrow>
          export_entities env rest output_dir (total_exported + count)
            (st\<lparr>om_client := c',
                export_stats := AList.update entity_name count (export_stats st)\<rparr>) fs')"

text \<open>\<^verbatim>\<open>_ensure_output_dir\<close>: \<^verbatim>\<open>Path(...)\<close> raises \<open>TypeError\<close> on a value that is not a
  string.\<close>

definition ensure_output_dir ::
  "('c, 'e) export_env \<Rightarrow> pyval \<Rightarrow> filesystem \<Rightarrow> exn + string \<times> filesystem" where
  "ensure_output_dir env cfg fs =
     bind_exn (getitem2 cfg ''export'' ''output_dir'') (\<lambda>v.
       case v of
         PStr output_dir \<Rightarrow>
           bind_exn (mkdir env output_dir fs) (\<lambda>fs'. Inr (output_dir, fs'))
       | _ \<Rightarrow> Inl TypeError)"

text \<open>\<^verbatim>\<open>_create_export_summary\<close>: the summary dictionary, the file written from it, and the
  two prints: that the file is saved, and the table of the counts above 0.\<close>

definition export_summary ::
  "('c, 'e) export_env \<Rightarrow> nat \<Rightarrow> 'c exporter \<Rightarrow> exn + pyval" where
  "export_summary env total_exported st =
     bind_exn (getitem2 (config st) ''openmetadata'' ''server_url'') (\<lambda>server_url.
     bind_exn (getitem (config st) ''export'') (\<lambda>export_config.
       Inr (PDict
         [(''export_timestamp'', PStr (now_isoformat env)),
          (''server_url'', server_url),
          (''api_method'', PStr ''openmetadata_sdk''),
          (''total_entities_exported'', PInt (int total_exported)),
          (''entity_counts'', PDict (map (\<lambda>(k, n). (k, PInt (int n))) (export_stats st))),
          (''export_config'', export_config)])))"

definition create_export_summary ::
  "('c, 'e) export_env \<Rightarrow> string \<Rightarrow> nat \<Rightarrow> 'c exporter \<Rightarrow> filesystem
   \<Rightarrow> (exn + unit) \<times> filesystem" where
  "create_export_summary env output_dir total_exported st fs =
     (case export_summary env total_exported st of
        Inl e \<Rightarrow> (Inl e, fs)
      | Inr summary \<Rightarrow>
          (let summary_file = (output_dir, ''export_summary.json'') in
           case open_write fs summary_file of
             Some e \<Rightarrow> (Inl e, fs)
           | None \<Rightarrow>
               (case json_dump_indent env summary of
                  DumpRaised part e \<Rightarrow> (Inl e, fs(summary_file := Text part))
                | Dumped s \<Rightarrow>
                    saying (console env) (SummarySavedMsg summary_file)
                      (fs(summary_file := Text s))
                      (saying (console env)
                         (SummaryTableMsg (filter (\<lambda>(entity_type, count). 0 < count)
                            (export_stats st)))
                         (fs(summary_file := Text s))
                         (Inr (), fs(summary_file := Text s))))))"

text \<open>
  \<^verbatim>\<open>export_all\<close>: whether it returns or raises, with the exporter and the files as it
  leaves them. The second line of the banner reads
  \<^verbatim>\<open>self.config['openmetadata']['server_url']\<close>; the progress display renders its task when
  the task is added. \<open>export_all_finish\<close> is what follows the loop, from what the loop
  gave: the summary and the closing prints.
\<close>

definition export_all_finish ::
  "('c, 'e) export_env \<Rightarrow> string \<Rightarrow> (exn + nat) \<times> 'c exporter \<times> filesystem
   \<Rightarrow> (exn + unit) \<times> 'c exporter \<times> filesystem" where
  "export_all_finish env output_dir loop =
     (case loop of
        (Inl e, st2, fs2) \<Rightarrow> (Inl e, st2, fs2)
      | (Inr total_exported, st2, fs2) \<Rightarrow>
          (case create_export_summary env output_dir total_exported st2 fs2 of
             (Inl e, fs3) \<Rightarrow> (Inl e, st2, fs3)
           | (Inr u, fs3) \<Rightarrow>
               saying (console env) CompletedMsg (st2, fs3)
                 (saying (console env) (TotalExportedMsg total_exported) (st2, fs3)
                    (saying (console env) (OutputDirectoryMsg output_dir) (st2, fs3)
                       (Inr (), st2, fs3)))))"

definition export_all ::
  "('c, 'e) export_env \<Rightarrow> string list option \<Rightarrow> 'c exporter \<Rightarrow> filesystem
   \<Rightarrow> (exn + unit) \<times> 'c exporter \<times> filesystem" where
  "export_all env selected_entities st fs =
     saying (console env) StartingMsg (st, fs)
       (case getitem2 (config st) ''openmetadata'' ''server_url'' of
          Inl e \<Rightarrow> (Inl e, st, fs)
        | Inr server_url \<Rightarrow>
            saying (console env) (ServerMsg server_url) (st, fs)
              (saying (console env) ApiMethodMsg (st, fs)
                 (case ensure_output_dir env (config st) fs of
                    Inl e \<Rightarrow> (Inl e, st, fs)
                  | Inr (output_dir, fs1) \<Rightarrow>
                      (case entities_to_export selected_entities (config st) of
                         Inl e \<Rightarrow> (Inl e, st, fs1)
                       | Inr working_set \<Rightarrow>
                           saying (console env) (ExportProgressMsg (length working_set)) (st, fs1)
                             (export_all_finish env output_dir
                                (export_entities env working_set output_dir 0 st fs1))))))"

text \<open>
  \<^verbatim>\<open>export_all\<close> reaches its loop, with the output directory, the files and the working
  set given: the banner is printed, the directory is there, the working set is
  determined and the progress display is up.
\<close>

definition reaches_loop ::
  "('c, 'e) export_env \<Rightarrow> string list option \<Rightarrow> 'c exporter \<Rightarrow> filesystem
   \<Rightarrow> string \<Rightarrow> filesystem \<Rightarrow> (string \<times> entity_class) list \<Rightarrow> bool" where
  "reaches_loop env selected_entities st fs output_dir fs1 working_set =
     (console env StartingMsg = None
      \<and> (case getitem2 (config st) ''openmetadata'' ''server_url'' of
            Inl e \<Rightarrow> False
          | Inr server_url \<Rightarrow> console env (ServerMsg server_url) = None)
      \<and> console env ApiMethodMsg = None
      \<and> ensure_output_dir env (config st) fs = Inr (output_dir, fs1)
      \<and> entities_to_export selected_entities (config st) = Inr working_set
      \<and> console env (ExportProgressMsg (length working_set)) = None)"

section \<open>Fixtures\<close>

text \<open>The configurations of test_migration.py, and stand-ins for the libraries.\<close>

definition test_export_config :: pyval where
  "test_export_config =
     PDict
       [(''openmetadata'',
           PDict [(''server_url'', PStr ''http://test.example.com''),
                  (''auth'', PDict [(''jwt_token'', PStr ''test_token'')])]),
        (''export'',
           PDict [(''output_dir'', PStr ''./test_exports''),
                  (''entities'',
                     PDict [(''domains'', PBool True), (''teams'', PBool True),
                            (''data_products'', PBool False)]),
                  (''selective'',
                     PDict [(''domains'', PList []),
                            (''linked_data_products_only'', PBool False),
                            (''linked_assets_only'', PBool False)]),
                  (''batch_size'', PInt 10)]),
        (''logging'', PDict [(''level'', PStr ''INFO'')])]"

definition test_import_config :: pyval where
  "test_import_config =
     PDict
       [(''openmetadata'',
           PDict [(''server_url'', PStr ''http://test.example.com''),
                  (''auth'', PDict [(''jwt_token'', PStr ''test_token'')])]),
        (''import'',
           PDict [(''input_dir'', PStr ''./test_imports''),
                  (''update_existing'', PBool True),
                  (''skip_on_error'', PBool True),
                  (''import_order'', PList [PStr ''teams'', PStr ''domains'', PStr ''data_products''])]),
        (''logging'', PDict [(''level'', PStr ''INFO'')])]"

text \<open>
  A console that raises \<open>MarkupError\<close> on every message that puts a closing tag into the
  markup, as the library does for a tag that closes nothing.
\<close>

fun closing_tag :: "string \<Rightarrow> bool" where
  "closing_tag (c # d # cs) = ((c = CHR ''['' \<and> d = CHR ''/'') \<or> closing_tag (d # cs))"
| "closing_tag cs = False"

fun exn_words :: "exn \<Rightarrow> string list" where
  "exn_words (KeyError k) = [k]"
| "exn_words (OtherError s) = [s]"
| "exn_words e = []"

fun interpolated :: "message \<Rightarrow> string list" where
  "interpolated (ParseErrorMsg n p e) = fst p # snd p # exn_words e"
| "interpolated (FileNotFoundMsg p) = [fst p, snd p]"
| "interpolated (ReadErrorMsg p e) = fst p # snd p # exn_words e"
| "interpolated (NotImplementedMsg entity_type) = [entity_type]"
| "interpolated (ImportErrorMsg msg) = [msg]"
| "interpolated (SkippingMsg msg) = [msg]"
| "interpolated (NoFileMsg entity_type p) = [entity_type, fst p, snd p]"
| "interpolated (ImportingMsg entity_type) = [entity_type]"
| "interpolated (NoEntitiesMsg p) = [fst p, snd p]"
| "interpolated (ImportProgressMsg entity_type n) = [entity_type]"
| "interpolated (ImportedMsg k n entity_type) = [entity_type]"
| "interpolated (ExportedMsg n filename p) = [filename, fst p, snd p]"
| "interpolated (WriteErrorMsg filename e) = filename # exn_words e"
| "interpolated (ExportingMsg entity_name) = [entity_name]"
| "interpolated (RetrievedMsg n entity_name) = [entity_name]"
| "interpolated (ExportErrorMsg entity_name e) = entity_name # exn_words e"
| "interpolated (ServerMsg v) = (case v of PStr s \<Rightarrow> [s] | _ \<Rightarrow> [])"
| "interpolated (SummarySavedMsg p) = [fst p, snd p]"
| "interpolated (SummaryTableMsg rows) = map fst rows"
| "interpolated (OutputDirectoryMsg d) = [d]"
| "interpolated m = []"

definition test_console :: console where
  "test_console m = (if list_ex closing_tag (interpolated m) then Some MarkupError else None)"

text \<open>
  A client that counts the calls made on it, and a service that rejects every record
  without a \<open>name\<close>, with the description of the record, if it has one, in the text of
  the exception.
\<close>

definition test_import_env :: "nat import_env" where
  "test_import_env =
     \<lparr>console = test_console,
      repr = (\<lambda>v. ''?''),
      exn_text = (\<lambda>e. case e of OtherError s \<Rightarrow> s | _ \<Rightarrow> ''error''),
      json_loads = (\<lambda>s. Inl JSONDecodeError),
      create_or_update = (\<lambda>req kwargs c.
        (if map_of kwargs ''name'' = None
         then Some (OtherError
                (case map_of kwargs ''description'' of
                   Some (PStr d) \<Rightarrow> ''rejected: '' @ d
                 | _ \<Rightarrow> ''rejected''))
         else None,
         c + 1))\<rparr>"

definition test_importer :: "nat importer" where
  "test_importer =
     \<lparr>config = test_import_config, om_client = 0, import_stats = [], errors = []\<rparr>"

definition empty_fs :: filesystem where
  "empty_fs = (\<lambda>p. Absent)"

text \<open>A file system that holds no file and refuses a name of more than 255 characters,
  and an entity type with such a name.\<close>

definition test_fs_name_limit :: filesystem where
  "test_fs_name_limit p =
     (if 255 < length (snd p) then Unreachable (OtherError ''File name too long'') else Absent)"

definition test_long_name :: string where
  "test_long_name = replicate 300 (CHR ''a'')"

definition sample_domain :: pydict where
  "sample_domain = [(''id'', PStr ''d1''), (''name'', PStr ''Finance''), (''version'', PInt 2),
     (''domainType'', PStr ''Aggregate'')]"

definition sample_product :: pydict where
  "sample_product =
     [(''id'', PStr ''p1''), (''name'', PStr ''orders''),
      (''domain'', PDict [(''id'', PStr ''d1''), (''name'', PStr ''Sales''),
                          (''fullyQualifiedName'', PStr ''Corp.Sales'')])]"

definition unqualified_product :: pydict where
  "unqualified_product =
     [(''name'', PStr ''orders''), (''domain'', PDict [(''name'', PStr ''Sales'')])]"


text \<open>The environment of \<^verbatim>\<open>test_env_overrides_import\<close>.\<close>

definition test_environ :: "string \<Rightarrow> string option" where
  "test_environ =
     [''IMPORT_INPUT_DIR'' \<mapsto> ''/custom/import/dir'', ''IMPORT_SKIP_ON_ERROR'' \<mapsto> ''false'']"

text \<open>
  The entities of \<^verbatim>\<open>test_write_ndjson\<close> with the lines \<^verbatim>\<open>json.dump\<close> writes for them, a
  file that holds a malformed line between the two, and the JSON library on these
  texts.
\<close>

definition test_entity1 :: pyval where
  "test_entity1 = PDict [(''id'', PStr ''1''), (''name'', PStr ''test1'')]"

definition test_entity2 :: pyval where
  "test_entity2 = PDict [(''id'', PStr ''2''), (''name'', PStr ''test2'')]"

definition test_line1 :: string where
  \<open>test_line1 = ''{"id": "1", "name": "test1"}''\<close>

definition test_line2 :: string where
  \<open>test_line2 = ''{"id": "2", "name": "test2"}''\<close>

text \<open>An entity with a tuple, which \<^verbatim>\<open>json.dump\<close> writes as an array and
  \<^verbatim>\<open>json.loads\<close> reads as a list; and a line of 100000 opening brackets, on which
  \<^verbatim>\<open>json.loads\<close> raises \<open>RecursionError\<close>.\<close>

definition test_tuple_entity :: pyval where
  "test_tuple_entity = PDict [(''a'', PTuple [PInt 1, PInt 2])]"

definition test_list_entity :: pyval where
  "test_list_entity = PDict [(''a'', PList [PInt 1, PInt 2])]"

definition test_tuple_line :: string where
  \<open>test_tuple_line = ''{"a": [1, 2]}''\<close>

definition test_deep_line :: string where
  "test_deep_line = replicate 100000 (CHR ''['')"

definition test_dump :: "pyval \<Rightarrow> dump_result" where
  "test_dump v =
     (if v = test_entity1 then Dumped test_line1
      else if v = test_entity2 then Dumped test_line2
      else if v = test_tuple_entity then Dumped test_tuple_line
      else DumpRaised [] TypeError)"

definition test_loads :: "string \<Rightarrow> exn + pyval" where
  "test_loads s =
     (if s = test_line1 then Inr test_entity1
      else if s = test_line2 then Inr test_entity2
      else if s = test_tuple_line then Inr test_list_entity
      else if s = test_deep_line then Inl (OtherError ''RecursionError'')
      else Inl JSONDecodeError)"

definition test_broken_line :: string where
  \<open>test_broken_line = ''{"id": ''\<close>

definition test_text_with_malformed_line :: string where
  "test_text_with_malformed_line =
     test_line1 @ [LF] @ test_broken_line @ [CR, LF] @ [LF] @ test_line2 @ [LF]"

definition test_file_with_malformed_line :: filesystem where
  "test_file_with_malformed_line =
     empty_fs((''./test_imports'', ''teams.ndjson'') := Text test_text_with_malformed_line)"

definition test_file_with_deep_line :: filesystem where
  "test_file_with_deep_line =
     empty_fs((''./test_imports'', ''teams.ndjson'') :=
       Text (test_line1 @ [LF] @ test_deep_line @ [LF] @ test_line2 @ [LF]))"

text \<open>
  An exporter on the configuration of the tests, with a service whose listing of teams
  raises, with a given text, and whose every other listing is the one entity
  \<open>test_entity1\<close>; the client counts the calls.
\<close>

definition test_object :: "pyval sdk_object" where
  "test_object =
     \<lparr>model_dump = Some (Inr test_entity1), dict_method = None, dunder_dict = None,
      dict_of = Inl TypeError\<rparr>"

definition test_export_env_raising :: "string \<Rightarrow> (nat, pyval) export_env" where
  "test_export_env_raising what =
     \<lparr>console = test_console,
      list_entities = (\<lambda>entity_class c.
        (if entity_class = Team then Inl (OtherError what) else Inr (Some [test_object]),
         c + 1)),
      json_dump = test_dump,
      json_dump_indent = (\<lambda>v. Dumped ''{}''),
      mkdir = (\<lambda>d fs. Inr fs),
      now_isoformat = ''2024-01-01T00:00:00''\<rparr>"

definition test_export_env :: "(nat, pyval) export_env" where
  "test_export_env = test_export_env_raising ''timeout''"

text \<open>The same where the output directory cannot be created.\<close>

definition test_export_env_no_directory :: "(nat, pyval) export_env" where
  "test_export_env_no_directory =
     test_export_env\<lparr>mkdir := (\<lambda>d fs. Inl (OtherError ''Permission denied''))\<rparr>"

definition test_exporter :: "nat exporter" where
  "test_exporter = \<lparr>config = test_export_config, om_client = 0, export_stats = []\<rparr>"

section \<open>Properties of the field filter\<close>

lemma map_of_keep_allowed:
  "map_of (filter (\<lambda>(k, v). k \<in> A) d) k = (if k \<in> A then map_of d k else None)"
  by (induction d) auto

text \<open>
  Claim C10. For an entity type other than \<open>data_products\<close>, \<open>domains\<close> and \<open>teams\<close> the
  filter returns its input as it is; for \<open>users\<close> and \<open>policies\<close>, which have a creation
  path, the whole record goes into the creation request.
\<close>

theorem filter_entity_fields_other_types:
  "(entity_type \<notin> {''data_products'', ''domains'', ''teams''} \<longrightarrow>
      filter_entity_fields rp entity_data entity_type = Inr entity_data)
   \<and> import_entity_body env entity_data ''users'' c = submit env CreateUserRequest entity_data c
   \<and> import_entity_body env entity_data ''policies'' c = submit env CreatePolicyRequest entity_data c"
  by (simp add: filter_entity_fields_def import_entity_body_def)

theorem filter_entity_fields_other_types_witness:
  "''users'' \<notin> {''data_products'', ''domains'', ''teams''}
   \<and> filter_entity_fields (\<lambda>v. ''?'') (PDict [(''id'', PStr ''u1''), (''name'', PStr ''ada'')]) ''users''
       = Inr (PDict [(''id'', PStr ''u1''), (''name'', PStr ''ada'')])
   \<and> import_entity_body test_import_env (PDict [(''id'', PStr ''u1''), (''name'', PStr ''ada'')]) ''users'' 0
       = (Inr True, 1)"
proof -
  have h: "''users'' \<notin> {''data_products'', ''domains'', ''teams''}" by simp
  from filter_entity_fields_other_types
    [of "''users''" "\<lambda>v. ''?''" "PDict [(''id'', PStr ''u1''), (''name'', PStr ''ada'')]" test_import_env 0]
  show ?thesis using h by (simp add: submit_def test_import_env_def)
qed

text \<open>
  Claim C2. For entity type \<open>domains\<close> the filter returns the items of the input whose key
  is in the allow-list, in their order and with their values: every key of the allow-list
  maps to what it mapped to in the input (nothing, when the input lacks it), and no
  other key is left.
\<close>

theorem filter_entity_fields_domains:
  "filter_entity_fields rp (PDict entity_data) ''domains'' =
     Inr (PDict (filter (\<lambda>(k, v). k \<in> {''name'', ''displayName'', ''description'',
        ''fullyQualifiedName'', ''domainType'', ''parent'', ''owners'', ''experts'', ''tags'',
        ''extension''}) entity_data))
   \<and> (\<forall>k. map_of (filter (\<lambda>(k, v). k \<in> {''name'', ''displayName'', ''description'',
        ''fullyQualifiedName'', ''domainType'', ''parent'', ''owners'', ''experts'', ''tags'',
        ''extension''}) entity_data) k =
          (if k \<in> {''name'', ''displayName'', ''description'', ''fullyQualifiedName'',
                    ''domainType'', ''parent'', ''owners'', ''experts'', ''tags'', ''extension''}
           then map_of entity_data k else None))"
proof (rule conjI)
  show "filter_entity_fields rp (PDict entity_data) ''domains'' =
     Inr (PDict (filter (\<lambda>(k, v). k \<in> {''name'', ''displayName'', ''description'',
        ''fullyQualifiedName'', ''domainType'', ''parent'', ''owners'', ''experts'', ''tags'',
        ''extension''}) entity_data))"
    by (simp add: filter_entity_fields_def domains_allowed_def)
next
  show "\<forall>k. map_of (filter (\<lambda>(k, v). k \<in> {''name'', ''displayName'', ''description'',
        ''fullyQualifiedName'', ''domainType'', ''parent'', ''owners'', ''experts'', ''tags'',
        ''extension''}) entity_data) k =
          (if k \<in> {''name'', ''displayName'', ''description'', ''fullyQualifiedName'',
                    ''domainType'', ''parent'', ''owners'', ''experts'', ''tags'', ''extension''}
           then map_of entity_data k else None)"
    by (rule allI) (rule map_of_keep_allowed)
qed

theorem filter_entity_fields_domains_witness:
  "filter_entity_fields (\<lambda>v. ''?'') (PDict sample_domain) ''domains'' =
     Inr (PDict [(''name'', PStr ''Finance''), (''domainType'', PStr ''Aggregate'')])"
  using filter_entity_fields_domains [of "\<lambda>v. ''?''" sample_domain]
  by (simp add: sample_domain_def)

lemma map_of_update_same: "map_of (AList.update k v al) k = Some v"
  by (simp add: update_conv')

lemma map_of_update_other: "k' \<noteq> k \<Longrightarrow> map_of (AList.update k v al) k' = map_of al k'"
  by (simp add: update_conv')

lemma map_of_convert_domain_other:
  "k \<noteq> ''domain'' \<Longrightarrow> map_of (convert_domain rp d) k = map_of d k"
  by (simp add: convert_domain_def map_of_update_other split: option.split pyval.split)

lemma map_of_convert_domain:
  "map_of d ''domain'' = Some v \<Longrightarrow>
   map_of (convert_domain rp d) ''domain'' =
     Some (case v of
             PDict dm \<Rightarrow>
               (case map_of dm ''fullyQualifiedName'' of
                  Some q \<Rightarrow> q
                | None \<Rightarrow>
                    PStr (py_str rp (case map_of dm ''name'' of Some n \<Rightarrow> n | None \<Rightarrow> PStr '''')))
           | _ \<Rightarrow> v)"
  by (simp add: convert_domain_def map_of_update_same dict_get_def split: pyval.split)

text \<open>
  Claim C9, as amended. For a \<open>data_products\<close> record with a \<open>domain\<close> field, the filter
  leaves a record whose \<open>domain\<close> is: for a dictionary with the key \<open>fullyQualifiedName\<close>,
  the value under that key; for a dictionary without it, the text of its \<open>name\<close> (the
  empty string when it has none); for anything else, a string among them, the field as
  it was. The other fields are filtered by the allow-list.
\<close>

theorem filter_entity_fields_data_products_domain:
  assumes "map_of entity_data ''domain'' = Some v"
  shows "\<exists>filtered.
     filter_entity_fields rp (PDict entity_data) ''data_products'' = Inr (PDict filtered)
     \<and> map_of filtered ''domain'' =
         Some (case v of
                 PDict dm \<Rightarrow>
                   (case map_of dm ''fullyQualifiedName'' of
                      Some q \<Rightarrow> q
                    | None \<Rightarrow>
                        PStr (py_str rp
                          (case map_of dm ''name'' of Some n \<Rightarrow> n | None \<Rightarrow> PStr '''')))
               | _ \<Rightarrow> v)
     \<and> (\<forall>k. k \<noteq> ''domain'' \<longrightarrow>
           map_of filtered k =
             (if k \<in> {''name'', ''displayName'', ''description'', ''fullyQualifiedName'',
                       ''owners'', ''experts'', ''domain'', ''assets'', ''tags'', ''extension''}
              then map_of entity_data k else None))"
proof -
  let ?kept = "filter (\<lambda>(k, v). k \<in> set data_products_allowed) entity_data"
  have A: "set data_products_allowed =
      {''name'', ''displayName'', ''description'', ''fullyQualifiedName'',
       ''owners'', ''experts'', ''domain'', ''assets'', ''tags'', ''extension''}"
    by (simp add: data_products_allowed_def)
  have kept: "map_of ?kept k = (if k \<in> set data_products_allowed then map_of entity_data k else None)" for k
    by (rule map_of_keep_allowed)
  have "''domain'' \<in> set data_products_allowed" by (simp add: data_products_allowed_def)
  then have kd: "map_of ?kept ''domain'' = Some v" using assms by (simp add: kept)
  have 1: "filter_entity_fields rp (PDict entity_data) ''data_products'' =
      Inr (PDict (convert_domain rp ?kept))"
    by (simp add: filter_entity_fields_def)
  have 2: "map_of (convert_domain rp ?kept) ''domain'' =
         Some (case v of
                 PDict dm \<Rightarrow>
                   (case map_of dm ''fullyQualifiedName'' of
                      Some q \<Rightarrow> q
                    | None \<Rightarrow>
                        PStr (py_str rp
                          (case map_of dm ''name'' of Some n \<Rightarrow> n | None \<Rightarrow> PStr '''')))
               | _ \<Rightarrow> v)"
    by (rule map_of_convert_domain [OF kd])
  have 3: "\<forall>k. k \<noteq> ''domain'' \<longrightarrow>
           map_of (convert_domain rp ?kept) k =
             (if k \<in> {''name'', ''displayName'', ''description'', ''fullyQualifiedName'',
                       ''owners'', ''experts'', ''domain'', ''assets'', ''tags'', ''extension''}
              then map_of entity_data k else None)"
  proof (intro allI impI)
    fix k :: string
    assume "k \<noteq> ''domain''"
    then have "map_of (convert_domain rp ?kept) k = map_of ?kept k"
      by (rule map_of_convert_domain_other)
    also have "\<dots> = (if k \<in> set data_products_allowed then map_of entity_data k else None)"
      by (rule kept)
    finally show "map_of (convert_domain rp ?kept) k =
             (if k \<in> {''name'', ''displayName'', ''description'', ''fullyQualifiedName'',
                       ''owners'', ''experts'', ''domain'', ''assets'', ''tags'', ''extension''}
              then map_of entity_data k else None)"
      unfolding A .
  qed
  show ?thesis
    by (rule exI [of _ "convert_domain rp ?kept"], intro conjI, rule 1, rule 2, rule 3)
qed

theorem filter_entity_fields_data_products_domain_witness:
  "map_of sample_product ''domain'' =
     Some (PDict [(''id'', PStr ''d1''), (''name'', PStr ''Sales''),
                  (''fullyQualifiedName'', PStr ''Corp.Sales'')])
   \<and> (\<exists>filtered.
        filter_entity_fields (\<lambda>v. ''?'') (PDict sample_product) ''data_products'' = Inr (PDict filtered)
        \<and> map_of filtered ''domain'' = Some (PStr ''Corp.Sales'')
        \<and> map_of filtered ''name'' = Some (PStr ''orders'')
        \<and> map_of filtered ''id'' = None)"
proof -
  have h: "map_of sample_product ''domain'' =
     Some (PDict [(''id'', PStr ''d1''), (''name'', PStr ''Sales''),
                  (''fullyQualifiedName'', PStr ''Corp.Sales'')])"
    by (simp add: sample_product_def)
  from filter_entity_fields_data_products_domain [OF h, of "\<lambda>v. ''?''"]
  show ?thesis
    by (simp add: sample_product_def filter_entity_fields_def data_products_allowed_def
        convert_domain_def dict_get_def)
qed

text \<open>
  Claim C9 as stated fails on a \<open>domain\<close> dictionary without \<open>fullyQualifiedName\<close>: the
  field becomes the name, which is not the value of that key (there is none).
\<close>

theorem filter_entity_fields_domain_without_qualified_name:
  "filter_entity_fields (\<lambda>v. ''?'') (PDict unqualified_product) ''data_products'' =
     Inr (PDict [(''name'', PStr ''orders''), (''domain'', PStr ''Sales'')])
   \<and> map_of unqualified_product ''domain'' = Some (PDict [(''name'', PStr ''Sales'')])
   \<and> map_of [(''name'', PStr ''Sales'')] ''fullyQualifiedName'' = None
   \<and> map_of [(''name'', PStr ''orders''), (''domain'', PStr ''Sales'')] ''domain''
       \<noteq> map_of [(''name'', PStr ''Sales'')] ''fullyQualifiedName''"
  by (simp add: unqualified_product_def filter_entity_fields_def data_products_allowed_def
      convert_domain_def dict_get_def)

section \<open>Properties of the importer\<close>

lemma saying_None: "out m = None \<Longrightarrow> saying out m s k = k"
  by (simp add: saying_def)

text \<open>
  Claim C4, as amended. When the path \<^verbatim>\<open><entity_type>.ndjson\<close> of the input directory
  holds no file, so that \<^verbatim>\<open>exists()\<close> answers False, and the warning of
  \<^verbatim>\<open>_import_entity_type\<close> is printed, the call returns 0 and leaves the importer as it
  was; and \<^verbatim>\<open>_load_ndjson\<close> on that path returns the empty list when its own warning is
  printed.
\<close>

theorem import_entity_type_absent_file:
  assumes "fs (ndjson_path input_dir entity_type) = Absent"
    and "console env (NoFileMsg entity_type (ndjson_path input_dir entity_type)) = None"
  shows "import_entity_type env fs entity_type input_dir st = (Inr 0, st)
       \<and> (out (FileNotFoundMsg (ndjson_path input_dir entity_type)) = None \<longrightarrow>
            load_ndjson out loads fs (ndjson_path input_dir entity_type) = Inr [])"
  using assms
  by (simp add: import_entity_type_def exists_path_def saying_None load_ndjson_def
      load_ndjson_body_def open_read_def)

theorem import_entity_type_absent_file_witness:
  "empty_fs (ndjson_path ''./test_imports'' ''domains'') = Absent
   \<and> console test_import_env (NoFileMsg ''domains'' (ndjson_path ''./test_imports'' ''domains'')) = None
   \<and> import_entity_type test_import_env empty_fs ''domains'' ''./test_imports'' test_importer
       = (Inr 0, test_importer)
   \<and> load_ndjson test_console (json_loads test_import_env) empty_fs
        (ndjson_path ''./test_imports'' ''domains'')
       = Inr []"
proof -
  have h: "empty_fs (ndjson_path ''./test_imports'' ''domains'') = Absent"
    by (simp add: empty_fs_def)
  have p: "console test_import_env (NoFileMsg ''domains'' (ndjson_path ''./test_imports'' ''domains''))
      = None"
    by (simp add: test_import_env_def test_console_def ndjson_path_def)
  have q: "test_console (FileNotFoundMsg (ndjson_path ''./test_imports'' ''domains'')) = None"
    by (simp add: test_console_def ndjson_path_def)
  from import_entity_type_absent_file
    [where fs = empty_fs and input_dir = "''./test_imports''" and entity_type = "''domains''"
       and env = test_import_env and st = test_importer and out = test_console
       and loads = "json_loads test_import_env", OF h p] q
  have "import_entity_type test_import_env empty_fs ''domains'' ''./test_imports'' test_importer
       = (Inr 0, test_importer)"
    and "load_ndjson test_console (json_loads test_import_env) empty_fs
        (ndjson_path ''./test_imports'' ''domains'') = Inr []"
    by simp_all
  with h p show ?thesis by (intro conjI)
qed

text \<open>
  Claim C4 as stated fails in two ways. For an entity type whose file name is too long
  for the file system there is no file, and \<^verbatim>\<open>exists()\<close> raises, which nothing catches.
  For an entity type with a closing tag in its name there is no file either, and the
  warning raises.
\<close>

theorem import_entity_type_absent_file_raises:
  "test_fs_name_limit (ndjson_path ''./test_imports'' test_long_name)
     = Unreachable (OtherError ''File name too long'')
   \<and> import_entity_type test_import_env test_fs_name_limit test_long_name ''./test_imports''
        test_importer
       = (Inl (OtherError ''File name too long''), test_importer)
   \<and> empty_fs (ndjson_path ''./test_imports'' ''teams[/]'') = Absent
   \<and> import_entity_type test_import_env empty_fs ''teams[/]'' ''./test_imports'' test_importer
       = (Inl MarkupError, test_importer)"
proof -
  have 1: "test_fs_name_limit (ndjson_path ''./test_imports'' test_long_name)
     = Unreachable (OtherError ''File name too long'')"
    by (simp add: test_fs_name_limit_def ndjson_path_def test_long_name_def)
  have 2: "import_entity_type test_import_env test_fs_name_limit test_long_name ''./test_imports''
        test_importer
       = (Inl (OtherError ''File name too long''), test_importer)"
    by (simp add: import_entity_type_def exists_path_def 1)
  have 3: "empty_fs (ndjson_path ''./test_imports'' ''teams[/]'') = Absent"
    by (simp add: empty_fs_def)
  have 4: "import_entity_type test_import_env empty_fs ''teams[/]'' ''./test_imports'' test_importer
       = (Inl MarkupError, test_importer)"
    by (simp add: empty_fs_def import_entity_type_def exists_path_def saying_def
      test_import_env_def test_console_def ndjson_path_def)
  from 1 2 3 4 show ?thesis by (intro conjI)
qed







section \<open>Properties of the environment overrides\<close>

lemma lower_false: "lower ''false'' = ''false''"
  by (simp add: lower_def lower_char_def)

lemma lower_true: "lower ''true'' = ''true''"
  by (simp add: lower_def lower_char_def)



lemma bind_exn_Inr: "bind_exn m f = Inr y \<Longrightarrow> \<exists>x. m = Inr x \<and> f x = Inr y"
  by (cases m) (simp_all add: bind_exn_def)

lemma setitem2_dict:
  "map_of tp a = Some (PDict d) \<Longrightarrow>
   setitem2 (PDict tp) a k x = Inr (PDict (AList.update a (PDict (AList.update k x d)) tp))"
  by (simp add: setitem2_def bind_exn_def)

lemma setitem2_Inr:
  assumes "setitem2 c a k x = Inr c'"
  shows "\<exists>tp d. c = PDict tp \<and> map_of tp a = Some (PDict d)
           \<and> c' = PDict (AList.update a (PDict (AList.update k x d)) tp)"
proof (cases c)
  case (PDict tp)
  show ?thesis
  proof (cases "map_of tp a")
    case None
    with PDict assms show ?thesis by (simp add: setitem2_def bind_exn_def)
  next
    case (Some inner)
    show ?thesis
    proof (cases inner)
      case (PDict d)
      with \<open>c = PDict tp\<close> Some assms show ?thesis by (simp add: setitem2_def bind_exn_def)
    qed (use \<open>c = PDict tp\<close> Some assms in \<open>simp_all add: setitem2_def bind_exn_def\<close>)
  qed
qed (use assms in \<open>simp_all add: setitem2_def bind_exn_def\<close>)

lemma setitem2_getitem2:
  assumes "setitem2 c a k x = Inr c'"
  shows "getitem2 c' a k = Inr x"
proof -
  from setitem2_Inr [OF assms] obtain tp d where
    "c' = PDict (AList.update a (PDict (AList.update k x d)) tp)" by (elim exE conjE)
  then show ?thesis by (simp add: getitem2_def bind_exn_def update_conv')
qed

lemma setitem2_getitem_other:
  assumes "setitem2 c a k x = Inr c'" and "b \<noteq> a"
  shows "getitem c' b = getitem c b"
proof -
  from setitem2_Inr [OF assms(1)] obtain tp d where
    "c = PDict tp" "c' = PDict (AList.update a (PDict (AList.update k x d)) tp)"
    by (elim exE conjE)
  then show ?thesis using assms(2) by (simp add: update_conv')
qed


lemma bind_exn_InrE:
  assumes "bind_exn m f = Inr y"
  obtains x where "m = Inr x" and "f x = Inr y"
  using bind_exn_Inr [OF assms] by (elim exE conjE)

lemma override_Inr:
  "override getenv var f c = Inr c' \<Longrightarrow>
     c' = c \<or> (\<exists>s. getenv var = Some s \<and> s \<noteq> [] \<and> f s c = Inr c')"
  by (simp add: override_def split: option.splits if_splits)

lemma override_set: "getenv var = Some s \<Longrightarrow> s \<noteq> [] \<Longrightarrow> override getenv var f c = f s c"
  by (simp add: override_def)

lemma is_dict_iff: "is_dict v \<longleftrightarrow> (\<exists>d. v = PDict d)"
  by (cases v) simp_all

lemma has_section_iff:
  "has_section c a \<longleftrightarrow> (\<exists>tp d. c = PDict tp \<and> map_of tp a = Some (PDict d))"
proof (cases c)
  case (PDict tp)
  then show ?thesis
    by (cases "map_of tp a") (simp_all add: has_section_def is_dict_iff)
qed (simp_all add: has_section_def)

lemma import_sectionsI:
  "map_of tp ''openmetadata'' = Some (PDict om) \<Longrightarrow> map_of om ''auth'' = Some (PDict au) \<Longrightarrow>
   map_of tp ''import'' = Some (PDict im) \<Longrightarrow> map_of tp ''logging'' = Some (PDict lg) \<Longrightarrow>
   import_sections (PDict tp)"
  by (simp add: import_sections_def has_section_def)

lemma import_sectionsE:
  assumes "import_sections c"
  obtains tp om au im lg where "c = PDict tp"
    and "map_of tp ''openmetadata'' = Some (PDict om)" and "map_of om ''auth'' = Some (PDict au)"
    and "map_of tp ''import'' = Some (PDict im)" and "map_of tp ''logging'' = Some (PDict lg)"
proof -
  from assms have 1: "has_section c ''openmetadata''" and 3: "has_section c ''import''"
    and 4: "has_section c ''logging''"
    by (simp_all add: import_sections_def)
  from 1 obtain tp om where c: "c = PDict tp" and om: "map_of tp ''openmetadata'' = Some (PDict om)"
    unfolding has_section_iff by (elim exE conjE)
  from assms c om have "has_section (PDict om) ''auth''"
    by (simp add: import_sections_def)
  then obtain au where au: "map_of om ''auth'' = Some (PDict au)"
    unfolding has_section_iff by (elim exE conjE) simp
  from 3 c obtain im where im: "map_of tp ''import'' = Some (PDict im)"
    unfolding has_section_iff by (elim exE conjE) simp
  from 4 c obtain lg where lg: "map_of tp ''logging'' = Some (PDict lg)"
    unfolding has_section_iff by (elim exE conjE) simp
  from c om au im lg show thesis by (rule that)
qed

lemma setitem2_sections:
  assumes "import_sections c" and "a = ''openmetadata'' \<or> a = ''import'' \<or> a = ''logging''"
    and "k \<noteq> ''auth''"
  shows "\<exists>c'. setitem2 c a k x = Inr c' \<and> import_sections c'"
proof -
  from assms(1) obtain tp om au im lg where c: "c = PDict tp"
    and om: "map_of tp ''openmetadata'' = Some (PDict om)" and au: "map_of om ''auth'' = Some (PDict au)"
    and im: "map_of tp ''import'' = Some (PDict im)" and lg: "map_of tp ''logging'' = Some (PDict lg)"
    by (rule import_sectionsE)
  from assms(2) consider "a = ''openmetadata''" | "a = ''import''" | "a = ''logging''" by blast
  then show ?thesis
  proof cases
    case 1
    have s: "setitem2 c a k x =
        Inr (PDict (AList.update ''openmetadata'' (PDict (AList.update k x om)) tp))"
      unfolding c 1 by (rule setitem2_dict [OF om])
    have "import_sections (PDict (AList.update ''openmetadata'' (PDict (AList.update k x om)) tp))"
      by (rule import_sectionsI [where om = "AList.update k x om" and au = au and im = im and lg = lg])
         (use au im lg assms(3) in \<open>simp_all add: update_conv'\<close>)
    with s show ?thesis by simp
  next
    case 2
    have s: "setitem2 c a k x =
        Inr (PDict (AList.update ''import'' (PDict (AList.update k x im)) tp))"
      unfolding c 2 by (rule setitem2_dict [OF im])
    have "import_sections (PDict (AList.update ''import'' (PDict (AList.update k x im)) tp))"
      by (rule import_sectionsI [where om = om and au = au and im = "AList.update k x im" and lg = lg])
         (use om au lg in \<open>simp_all add: update_conv'\<close>)
    with s show ?thesis by simp
  next
    case 3
    have s: "setitem2 c a k x =
        Inr (PDict (AList.update ''logging'' (PDict (AList.update k x lg)) tp))"
      unfolding c 3 by (rule setitem2_dict [OF lg])
    have "import_sections (PDict (AList.update ''logging'' (PDict (AList.update k x lg)) tp))"
      by (rule import_sectionsI [where om = om and au = au and im = im and lg = "AList.update k x lg"])
         (use om au im in \<open>simp_all add: update_conv'\<close>)
    with s show ?thesis by simp
  qed
qed

lemma setitem3_sections:
  assumes "import_sections c"
  shows "\<exists>c'. setitem3 c ''openmetadata'' ''auth'' k x = Inr c' \<and> import_sections c'"
proof -
  from assms obtain tp om au im lg where c: "c = PDict tp"
    and om: "map_of tp ''openmetadata'' = Some (PDict om)" and au: "map_of om ''auth'' = Some (PDict au)"
    and im: "map_of tp ''import'' = Some (PDict im)" and lg: "map_of tp ''logging'' = Some (PDict lg)"
    by (rule import_sectionsE)
  have s: "setitem3 c ''openmetadata'' ''auth'' k x =
      Inr (PDict (AList.update ''openmetadata''
             (PDict (AList.update ''auth'' (PDict (AList.update k x au)) om)) tp))"
    unfolding c using om au by (simp add: setitem3_def setitem2_dict bind_exn_def)
  have "import_sections (PDict (AList.update ''openmetadata''
             (PDict (AList.update ''auth'' (PDict (AList.update k x au)) om)) tp))"
    by (rule import_sectionsI [where om = "AList.update ''auth'' (PDict (AList.update k x au)) om"
          and au = "AList.update k x au" and im = im and lg = lg])
       (use im lg in \<open>simp_all add: update_conv'\<close>)
  with s show ?thesis by simp
qed

lemma override_sections:
  assumes "import_sections c" and "\<And>s. \<exists>c'. f s c = Inr c' \<and> import_sections c'"
  shows "\<exists>c'. override getenv var f c = Inr c' \<and> import_sections c'"
  using assms by (simp add: override_def split: option.split)

lemma override_setitem2_sections:
  assumes "import_sections c" and "a = ''openmetadata'' \<or> a = ''import'' \<or> a = ''logging''"
    and "k \<noteq> ''auth''"
  shows "\<exists>c'. override getenv var (\<lambda>s c. setitem2 c a k (g s)) c = Inr c' \<and> import_sections c'"
  by (rule override_sections [OF assms(1)]) (rule setitem2_sections [OF assms])

lemma override_setitem3_sections:
  assumes "import_sections c"
  shows "\<exists>c'. override getenv var (\<lambda>s c. setitem3 c ''openmetadata'' ''auth'' k (g s)) c = Inr c'
           \<and> import_sections c'"
  by (rule override_sections [OF assms]) (rule setitem3_sections [OF assms])

lemma bind_exn_sections:
  assumes "\<exists>c'. m = Inr c' \<and> import_sections c'"
    and "\<And>c'. import_sections c' \<Longrightarrow> \<exists>c''. f c' = Inr c'' \<and> import_sections c''"
  shows "\<exists>c''. bind_exn m f = Inr c'' \<and> import_sections c''"
proof -
  from assms(1) obtain c' where "m = Inr c'" and "import_sections c'" by (elim exE conjE)
  with assms(2) [of c'] show ?thesis by (simp add: bind_exn_def)
qed

lemma apply_env_overrides_sections:
  assumes "import_sections cfg"
  shows "\<exists>cfg'. apply_env_overrides getenv cfg = Inr cfg' \<and> import_sections cfg'"
  unfolding apply_env_overrides_def
  apply (rule bind_exn_sections)
   apply (rule override_setitem2_sections [OF assms]; simp)
  apply (rule bind_exn_sections)
   apply (erule override_setitem3_sections)
  apply (rule bind_exn_sections)
   apply (erule override_setitem2_sections; simp)
  apply (rule bind_exn_sections)
   apply (erule override_setitem2_sections; simp)
  apply (rule bind_exn_sections)
   apply (erule override_setitem2_sections; simp)
  apply (erule override_setitem2_sections; simp)
  done

lemma apply_env_overrides_flag:
  assumes A: "apply_env_overrides getenv cfg = Inr cfg'"
    and v: "getenv ''IMPORT_SKIP_ON_ERROR'' = Some v" and ne: "v \<noteq> []"
  shows "getitem2 cfg' ''import'' ''skip_on_error'' = Inr (PBool (lower v = ''true''))"
  using A unfolding apply_env_overrides_def
proof (elim bind_exn_InrE)
  fix c4 c5
  assume s5: "override getenv ''IMPORT_SKIP_ON_ERROR''
       (\<lambda>s c. setitem2 c ''import'' ''skip_on_error'' (PBool (lower s = ''true''))) c4 = Inr c5"
    and s6: "override getenv ''LOG_LEVEL''
       (\<lambda>s c. setitem2 c ''logging'' ''level'' (PStr s)) c5 = Inr cfg'"
  from s5 have "setitem2 c4 ''import'' ''skip_on_error'' (PBool (lower v = ''true'')) = Inr c5"
    by (simp add: override_set [where getenv = getenv, OF v ne])
  then have g5: "getitem2 c5 ''import'' ''skip_on_error'' = Inr (PBool (lower v = ''true''))"
    by (rule setitem2_getitem2)
  from override_Inr [OF s6] have "getitem cfg' ''import'' = getitem c5 ''import''"
  proof (elim disjE exE conjE)
    assume "cfg' = c5" then show ?thesis by simp
  next
    fix s assume "setitem2 c5 ''logging'' ''level'' (PStr s) = Inr cfg'"
    then show ?thesis by (rule setitem2_getitem_other) simp
  qed
  with g5 show ?thesis by (simp add: getitem2_def)
qed

text \<open>
  Claim C8. With \<open>IMPORT_SKIP_ON_ERROR\<close> set to \<open>false\<close> (or \<open>true\<close>), the overrides go
  through on a configuration that has its sections, and whenever they go through, the
  configuration they leave has \<open>import.skip_on_error\<close> equal to the boolean False (or
  True), whatever the file said.
\<close>

theorem apply_env_overrides_skip_on_error:
  assumes "getenv ''IMPORT_SKIP_ON_ERROR'' = Some v" and "v = ''false'' \<or> v = ''true''"
  shows "(import_sections cfg \<longrightarrow> (\<exists>cfg'. apply_env_overrides getenv cfg = Inr cfg'))
       \<and> (\<forall>cfg'. apply_env_overrides getenv cfg = Inr cfg' \<longrightarrow>
             getitem2 cfg' ''import'' ''skip_on_error'' = Inr (PBool (v = ''true'')))"
proof (intro conjI impI allI)
  assume "import_sections cfg"
  from apply_env_overrides_sections [OF this, of getenv]
  show "\<exists>cfg'. apply_env_overrides getenv cfg = Inr cfg'" by (elim exE conjE) (rule exI)
next
  fix cfg'
  assume A: "apply_env_overrides getenv cfg = Inr cfg'"
  from assms(2) have ne: "v \<noteq> []" and l: "(lower v = ''true'') = (v = ''true'')"
    by (auto simp: lower_false lower_true)
  from apply_env_overrides_flag [OF A assms(1) ne]
  show "getitem2 cfg' ''import'' ''skip_on_error'' = Inr (PBool (v = ''true''))"
    by (simp only: l)
qed

theorem apply_env_overrides_skip_on_error_witness:
  "test_environ ''IMPORT_SKIP_ON_ERROR'' = Some ''false''
   \<and> import_sections test_import_config
   \<and> getitem2 test_import_config ''import'' ''skip_on_error'' = Inr (PBool True)
   \<and> (\<exists>cfg'. apply_env_overrides test_environ test_import_config = Inr cfg'
        \<and> getitem2 cfg' ''import'' ''skip_on_error'' = Inr (PBool False)
        \<and> getitem2 cfg' ''import'' ''input_dir'' = Inr (PStr ''/custom/import/dir''))"
proof -
  have h: "test_environ ''IMPORT_SKIP_ON_ERROR'' = Some ''false''"
    by (simp add: test_environ_def)
  have s: "import_sections test_import_config"
    by (simp add: import_sections_def has_section_def test_import_config_def)
  have g: "getitem2 test_import_config ''import'' ''skip_on_error'' = Inr (PBool True)"
    by (simp add: getitem2_def bind_exn_def test_import_config_def)
  have r: "apply_env_overrides test_environ test_import_config =
     Inr (PDict
       [(''openmetadata'',
           PDict [(''server_url'', PStr ''http://test.example.com''),
                  (''auth'', PDict [(''jwt_token'', PStr ''test_token'')])]),
        (''import'',
           PDict [(''input_dir'', PStr ''/custom/import/dir''),
                  (''update_existing'', PBool True),
                  (''skip_on_error'', PBool False),
                  (''import_order'', PList [PStr ''teams'', PStr ''domains'', PStr ''data_products''])]),
        (''logging'', PDict [(''level'', PStr ''INFO'')])])"
    by (simp add: apply_env_overrides_def override_def test_environ_def test_import_config_def
        bind_exn_def setitem2_def lower_false)
  have h2: "''false'' = ''false'' \<or> ''false'' = ''true''" by simp
  from apply_env_overrides_skip_on_error
    [where getenv = test_environ and cfg = test_import_config, OF h h2] r
  have f: "getitem2 (PDict
       [(''openmetadata'',
           PDict [(''server_url'', PStr ''http://test.example.com''),
                  (''auth'', PDict [(''jwt_token'', PStr ''test_token'')])]),
        (''import'',
           PDict [(''input_dir'', PStr ''/custom/import/dir''),
                  (''update_existing'', PBool True),
                  (''skip_on_error'', PBool False),
                  (''import_order'', PList [PStr ''teams'', PStr ''domains'', PStr ''data_products''])]),
        (''logging'', PDict [(''level'', PStr ''INFO'')])]) ''import'' ''skip_on_error'' = Inr (PBool False)"
    by simp
  show ?thesis
    apply (intro conjI)
       apply (rule h)
      apply (rule s)
     apply (rule g)
    apply (simp only: r)
    apply (simp add: f)
    apply (simp add: getitem2_def bind_exn_def)
    done
qed

section \<open>Properties of loading and of the round trip\<close>

lemma load_lines_valid:
  "list_all (\<lambda>line. blank line \<or> valid_or_malformed loads line) ls \<Longrightarrow>
   (\<And>n. out (ParseErrorMsg n filepath JSONDecodeError) = None) \<Longrightarrow>
   load_lines out loads filepath line_num ls acc = Inr (acc @ valid_entities loads ls)"
proof (induction ls arbitrary: acc line_num)
  case Nil
  show ?case by (simp add: valid_entities_def)
next
  case (Cons line rest)
  from Cons.prems have rest: "list_all (\<lambda>line. blank line \<or> valid_or_malformed loads line) rest"
    and line: "blank line \<or> valid_or_malformed loads line"
    by simp_all
  note IH = Cons.IH [OF rest Cons.prems(2)]
  have ve: "valid_entities loads (line # rest) =
      (if blank line then [] else (case loads (strip line) of Inr v \<Rightarrow> [v] | Inl e \<Rightarrow> []))
      @ valid_entities loads rest"
    by (simp add: valid_entities_def)
  show ?case
  proof (cases "blank line")
    case True
    then show ?thesis
      using IH [of "line_num + 1" acc] by (simp add: ve blank_def)
  next
    case False
    with line have vm: "valid_or_malformed loads line" by simp
    show ?thesis
    proof (cases "loads (strip line)")
      case (Inr v)
      with False show ?thesis
        using IH [of "line_num + 1" "acc @ [v]"] by (simp add: ve blank_def)
    next
      case (Inl e)
      with vm have "e = JSONDecodeError" by (simp add: valid_or_malformed_def)
      with Inl False show ?thesis
        using IH [of "line_num + 1" acc] Cons.prems(2) [of line_num] by (simp add: ve blank_def)
    qed
  qed
qed

lemma valid_entities_drop_malformed:
  "valid_entities loads (filter (\<lambda>line. \<not> malformed loads line) ls) = valid_entities loads ls"
proof (induction ls)
  case Nil
  show ?case by simp
next
  case (Cons line rest)
  have ve: "valid_entities loads (l # r) =
      (if blank l then [] else (case loads (strip l) of Inr v \<Rightarrow> [v] | Inl e \<Rightarrow> []))
      @ valid_entities loads r" for l r
    by (simp add: valid_entities_def)
  show ?case
  proof (cases "malformed loads line")
    case True
    then have "(case loads (strip line) of Inr v \<Rightarrow> [v] | Inl e \<Rightarrow> []) = []"
      by (simp add: malformed_def split: sum.splits)
    with True Cons.IH show ?thesis by (simp add: ve)
  next
    case False
    with Cons.IH show ?thesis by (simp add: ve)
  qed
qed

text \<open>
  Claim C5, as amended. For a file each line of which is blank, valid, or malformed in
  that \<^verbatim>\<open>json.loads\<close> raises \<open>JSONDecodeError\<close> on it, and when the warning for a malformed
  line is printed, \<^verbatim>\<open>_load_ndjson\<close> returns the values of the valid lines in file order,
  which is what it returns for the file without its malformed lines.
\<close>

theorem load_ndjson_skips_malformed_lines:
  assumes "fs filepath = Text s"
    and "list_all (\<lambda>line. blank line \<or> valid_or_malformed loads line) (file_lines [] s)"
    and "\<forall>n. out (ParseErrorMsg n filepath JSONDecodeError) = None"
  shows "load_ndjson out loads fs filepath = Inr (valid_entities loads (file_lines [] s))
       \<and> load_ndjson out loads fs filepath =
           Inr (valid_entities loads
                  (filter (\<lambda>line. \<not> malformed loads line) (file_lines [] s)))"
proof -
  from assms(3) have p: "\<And>n. out (ParseErrorMsg n filepath JSONDecodeError) = None" by simp
  have "load_lines out loads filepath 1 (file_lines [] s) [] =
      Inr (valid_entities loads (file_lines [] s))"
    using load_lines_valid [where out = out and filepath = filepath and line_num = 1 and acc = "[]", OF assms(2) p] by simp
  then have 1: "load_ndjson out loads fs filepath = Inr (valid_entities loads (file_lines [] s))"
    by (simp add: load_ndjson_def load_ndjson_body_def open_read_def assms(1))
  show ?thesis using 1 by (simp add: valid_entities_drop_malformed)
qed

lemma test_deep_line_facts:
  "test_deep_line \<noteq> []" "hd test_deep_line = CHR ''[''" "last test_deep_line = CHR ''[''"
  "LF \<notin> set test_deep_line" "CR \<notin> set test_deep_line" "length test_deep_line = 100000"
  by (simp_all add: test_deep_line_def)

lemma test_line_lengths:
  "length test_line1 = 28" "length test_line2 = 28" "length test_tuple_line = 13"
  by (simp_all add: test_line1_def test_line2_def test_tuple_line_def)

lemma test_deep_line_distinct:
  "test_deep_line \<noteq> test_line1" "test_deep_line \<noteq> test_line2" "test_deep_line \<noteq> test_tuple_line"
  using test_deep_line_facts(6) test_line_lengths by auto


lemma test_file_lines:
  "file_lines [] test_text_with_malformed_line
     = [test_line1 @ [LF], test_broken_line @ [LF], [LF], test_line2 @ [LF]]"
  by (simp add: test_text_with_malformed_line_def test_line1_def test_line2_def
      test_broken_line_def)

lemma test_strips:
  "strip (test_line1 @ [LF]) = test_line1"
  "strip (test_line2 @ [LF]) = test_line2"
  \<open>strip (test_broken_line @ [LF]) = ''{"id":''\<close>
  "strip [LF] = []"
  by (simp_all add: test_line1_def test_line2_def test_broken_line_def strip_def isspace_def)

lemma test_lines_nonempty: "test_line1 \<noteq> []" "test_line2 \<noteq> []"
  by (simp_all add: test_line1_def test_line2_def)

lemma test_broken_not_deep: \<open>''{"id":'' \<noteq> test_deep_line\<close>
proof
  assume \<open>''{"id":'' = test_deep_line\<close>
  then have \<open>length ''{"id":'' = length test_deep_line\<close> by (rule arg_cong)
  then show False by (simp add: test_deep_line_facts(6))
qed

lemma test_loads_values:
  "test_loads test_line1 = Inr test_entity1"
  "test_loads test_line2 = Inr test_entity2"
  \<open>test_loads ''{"id":'' = Inl JSONDecodeError\<close>
  using test_broken_not_deep
  by (simp_all add: test_loads_def test_line1_def test_line2_def test_tuple_line_def)

theorem load_ndjson_skips_malformed_lines_witness:
  "test_file_with_malformed_line (''./test_imports'', ''teams.ndjson'') =
     Text test_text_with_malformed_line
   \<and> list_all (\<lambda>line. blank line \<or> valid_or_malformed test_loads line)
       (file_lines [] test_text_with_malformed_line)
   \<and> malformed test_loads (test_broken_line @ [LF])
   \<and> test_console (ParseErrorMsg 2 (''./test_imports'', ''teams.ndjson'') JSONDecodeError) = None
   \<and> load_ndjson test_console test_loads test_file_with_malformed_line
        (''./test_imports'', ''teams.ndjson'')
       = Inr [test_entity1, test_entity2]"
proof -
  have f: "test_file_with_malformed_line (''./test_imports'', ''teams.ndjson'') =
     Text test_text_with_malformed_line"
    by (simp add: test_file_with_malformed_line_def)
  have l: "list_all (\<lambda>line. blank line \<or> valid_or_malformed test_loads line)
       (file_lines [] test_text_with_malformed_line)"
    by (simp only: test_file_lines)
       (simp add: blank_def valid_or_malformed_def test_strips test_loads_values
          test_lines_nonempty)
  have m: "malformed test_loads (test_broken_line @ [LF])"
    by (simp add: malformed_def test_strips test_loads_values)
  have p: "\<forall>n. test_console (ParseErrorMsg n (''./test_imports'', ''teams.ndjson'') JSONDecodeError)
      = None"
    by (simp add: test_console_def)
  have p2: "test_console (ParseErrorMsg 2 (''./test_imports'', ''teams.ndjson'') JSONDecodeError)
      = None"
    by (simp add: test_console_def)
  have v: "valid_entities test_loads (file_lines [] test_text_with_malformed_line)
     = [test_entity1, test_entity2]"
    by (simp only: test_file_lines)
       (simp add: valid_entities_def blank_def test_strips test_loads_values test_lines_nonempty)
  from load_ndjson_skips_malformed_lines
    [where loads = test_loads and fs = test_file_with_malformed_line and out = test_console
       and filepath = "(''./test_imports'', ''teams.ndjson'')", OF f l p]
  have "load_ndjson test_console test_loads test_file_with_malformed_line
        (''./test_imports'', ''teams.ndjson'')
       = Inr [test_entity1, test_entity2]"
    by (simp only: v)
  with f l m p2 show ?thesis by (intro conjI)
qed

lemma file_lines_LF: "file_lines cur (LF # xs) = (cur @ [LF]) # file_lines [] xs"
  by (cases xs) simp_all

lemma file_lines_char:
  "c \<noteq> LF \<Longrightarrow> c \<noteq> CR \<Longrightarrow> xs \<noteq> [] \<Longrightarrow> file_lines cur (c # xs) = file_lines (cur @ [c]) xs"
  by (cases xs) simp_all

lemma file_lines_line:
  "LF \<notin> set s \<Longrightarrow> CR \<notin> set s \<Longrightarrow>
   file_lines cur (s @ LF # rest) = (cur @ s @ [LF]) # file_lines [] rest"
proof (induction s arbitrary: cur)
  case Nil
  show ?case by (simp add: file_lines_LF)
next
  case (Cons c s)
  then have "c \<noteq> LF" "c \<noteq> CR" "LF \<notin> set s" "CR \<notin> set s" by auto
  then show ?case
    using Cons.IH [of "cur @ [c]"] by (simp add: file_lines_char)
qed

lemma isspace_LF: "isspace LF"
  by (simp add: isspace_def)

lemma strip_line:
  assumes "s \<noteq> []" and "\<not> isspace (hd s)" and "\<not> isspace (last s)"
  shows "strip (s @ [LF]) = s"
proof -
  from assms(1,2) have 1: "dropWhile isspace (s @ [LF]) = s @ [LF]"
    by (cases s) simp_all
  from assms(1,3) have 2: "dropWhile isspace (rev s) = rev s"
    by (cases s rule: rev_cases) simp_all
  show ?thesis by (simp add: strip_def 1 2 isspace_LF)
qed

lemma test_lines_no_newline:
  "LF \<notin> set test_line1" "CR \<notin> set test_line1" "LF \<notin> set test_line2" "CR \<notin> set test_line2"
  by (simp_all add: test_line1_def test_line2_def)

lemma test_deep_line_strip: "strip (test_deep_line @ [LF]) = test_deep_line"
  by (rule strip_line) (simp_all add: test_deep_line_facts isspace_def)

lemma test_loads_deep_line: "test_loads test_deep_line = Inl (OtherError ''RecursionError'')"
  using test_deep_line_distinct by (simp add: test_loads_def)

lemma test_deep_file_lines:
  "file_lines [] (test_line1 @ [LF] @ test_deep_line @ [LF] @ test_line2 @ [LF])
     = [test_line1 @ [LF], test_deep_line @ [LF], test_line2 @ [LF]]"
  "file_lines [] (test_line1 @ LF # test_deep_line @ LF # test_line2 @ [LF])
     = [test_line1 @ [LF], test_deep_line @ [LF], test_line2 @ [LF]]"
  using file_lines_line [OF test_lines_no_newline(1,2), of "[]" "test_deep_line @ [LF] @ test_line2 @ [LF]"]
    file_lines_line [OF test_deep_line_facts(4,5), of "[]" "test_line2 @ [LF]"]
    file_lines_line [OF test_lines_no_newline(3,4), of "[]" "[]"]
  by simp_all

text \<open>
  Claim C5 as stated fails on a line on which \<^verbatim>\<open>json.loads\<close> raises another exception
  than \<open>JSONDecodeError\<close>: the outer handler takes it and the call returns the empty
  list, although the first and the third line are valid.
\<close>

theorem load_ndjson_deep_line:
  "file_lines [] (test_line1 @ [LF] @ test_deep_line @ [LF] @ test_line2 @ [LF])
     = [test_line1 @ [LF], test_deep_line @ [LF], test_line2 @ [LF]]
   \<and> test_loads (strip (test_line1 @ [LF])) = Inr test_entity1
   \<and> test_loads (strip (test_deep_line @ [LF])) = Inl (OtherError ''RecursionError'')
   \<and> test_loads (strip (test_line2 @ [LF])) = Inr test_entity2
   \<and> load_ndjson test_console test_loads test_file_with_deep_line
        (''./test_imports'', ''teams.ndjson'') = Inr []"
proof -
  have r: "test_console (ReadErrorMsg (''./test_imports'', ''teams.ndjson'')
      (OtherError ''RecursionError'')) = None"
    by (simp add: test_console_def)
  have o: "open_read test_file_with_deep_line (''./test_imports'', ''teams.ndjson'')
      = Inr (test_line1 @ [LF] @ test_deep_line @ [LF] @ test_line2 @ [LF])"
    by (simp add: open_read_def test_file_with_deep_line_def)
  have b: "load_ndjson_body test_console test_loads test_file_with_deep_line
      (''./test_imports'', ''teams.ndjson'') = Inl (OtherError ''RecursionError'')"
    unfolding load_ndjson_body_def o
    by (simp add: test_deep_file_lines test_strips test_deep_line_strip test_loads_values
        test_loads_deep_line test_lines_nonempty test_deep_line_facts(1))
  have 5: "load_ndjson test_console test_loads test_file_with_deep_line
        (''./test_imports'', ''teams.ndjson'') = Inr []"
    by (simp add: load_ndjson_def b r)
  show ?thesis
    by (simp only: test_deep_file_lines test_strips test_deep_line_strip test_loads_values
        test_loads_deep_line 5)
qed

lemma dump_entities_round_trips:
  "list_all (round_trips dump loads) es \<Longrightarrow>
   \<exists>ls. dump_entities dump es written = (None, written @ concat ls)
        \<and> file_lines [] (concat ls) = ls
        \<and> (\<forall>out filepath line_num. load_lines out loads filepath line_num ls acc = Inr (acc @ es))"
proof (induction es arbitrary: written acc)
  case Nil
  show ?case by (rule exI [of _ "[]"]) simp
next
  case (Cons e es)
  from Cons.prems have e: "round_trips dump loads e" and es: "list_all (round_trips dump loads) es"
    by simp_all
  from e obtain s where d: "dump e = Dumped s" and ne: "s \<noteq> []"
    and nl: "LF \<notin> set s" "CR \<notin> set s" and sp: "\<not> isspace (hd s)" "\<not> isspace (last s)"
    and l: "loads s = Inr e"
    by (cases "dump e") (simp_all add: round_trips_def)
  from Cons.IH [OF es, of "written @ s @ [LF]" "acc @ [e]"] obtain ls where
    1: "dump_entities dump es (written @ s @ [LF]) = (None, (written @ s @ [LF]) @ concat ls)"
    and 2: "file_lines [] (concat ls) = ls"
    and 3: "\<forall>out filepath line_num.
              load_lines out loads filepath line_num ls (acc @ [e]) = Inr ((acc @ [e]) @ es)"
    by (elim exE conjE)
  have st: "strip (s @ [LF]) = s" by (rule strip_line [OF ne sp])
  have a: "dump_entities dump (e # es) written = (None, written @ concat ((s @ [LF]) # ls))"
    using d 1 by simp
  have b: "file_lines [] (concat ((s @ [LF]) # ls)) = (s @ [LF]) # ls"
    using file_lines_line [OF nl, of "[]" "concat ls"] 2 by simp
  have c: "\<forall>out filepath line_num.
      load_lines out loads filepath line_num ((s @ [LF]) # ls) acc = Inr (acc @ e # es)"
    using 3 l ne by (simp add: st)
  show ?case
    by (rule exI [of _ "(s @ [LF]) # ls"], intro conjI, rule a, rule b, rule c)
qed

text \<open>
  Claim C1, as amended. For a list of entities each of which \<^verbatim>\<open>json.dump\<close> writes as one
  line from which \<^verbatim>\<open>json.loads\<close> returns the entity (\<open>round_trips\<close>), written by
  \<^verbatim>\<open>_write_ndjson\<close> to a file that can be opened for writing: from the file the call
  leaves, \<^verbatim>\<open>_load_ndjson\<close> returns the list, element for element in the same order; and
  the call returns the length of the list when its print goes through.
\<close>

theorem write_ndjson_load_ndjson:
  assumes "list_all (round_trips dump loads) entities"
    and "open_write fs (ndjson_path output_dir filename) = None"
  shows "(out (ExportedMsg (length entities) filename (ndjson_path output_dir filename)) = None
            \<longrightarrow> fst (write_ndjson out dump entities filename output_dir fs) = Inr (length entities))
       \<and> load_ndjson out' loads (snd (write_ndjson out dump entities filename output_dir fs))
           (ndjson_path output_dir filename) = Inr entities"
proof -
  from dump_entities_round_trips [OF assms(1), of "[]" "[]"] obtain ls where
    d0: "dump_entities dump entities [] = (None, [] @ concat ls)"
    and 2: "file_lines [] (concat ls) = ls"
    and l0: "\<forall>out filepath line_num.
               load_lines out loads filepath line_num ls [] = Inr ([] @ entities)"
    by (elim exE conjE)
  from d0 have 1: "dump_entities dump entities [] = (None, concat ls)" by simp
  have 3: "load_lines out' loads (ndjson_path output_dir filename) (Suc 0) ls [] = Inr entities"
    using l0 [rule_format, of out' "ndjson_path output_dir filename" "Suc 0"] by simp
  let ?p = "ndjson_path output_dir filename"
  let ?fs = "fs(?p := Text (concat ls))"
  have b: "write_ndjson_body out dump entities filename output_dir fs =
      saying out (ExportedMsg (length entities) filename ?p) ?fs (Inr (length entities), ?fs)"
    using assms(2) 1 by (simp add: write_ndjson_body_def Let_def)
  have w1: "out (ExportedMsg (length entities) filename ?p) = None \<longrightarrow>
      fst (write_ndjson out dump entities filename output_dir fs) = Inr (length entities)"
    by (simp add: write_ndjson_def b saying_def)
  have w2: "snd (write_ndjson out dump entities filename output_dir fs) = ?fs"
    by (simp add: write_ndjson_def b saying_def split: option.splits)
  have l: "load_ndjson out' loads ?fs ?p = Inr entities"
    by (simp add: load_ndjson_def load_ndjson_body_def open_read_def 2 3)
  show ?thesis using w1 l by (simp only: w2)
qed

lemma test_dump_values:
  "test_dump test_entity1 = Dumped test_line1" "test_dump test_entity2 = Dumped test_line2"
  "test_dump test_tuple_entity = Dumped test_tuple_line"
  by (simp_all add: test_dump_def test_entity1_def test_entity2_def test_tuple_entity_def)

lemma test_tuple_line_facts:
  "test_tuple_line \<noteq> []" "strip (test_tuple_line @ [LF]) = test_tuple_line"
  "test_loads test_tuple_line = Inr test_list_entity"
  "file_lines [] (test_tuple_line @ [LF]) = [test_tuple_line @ [LF]]"
  by (simp_all add: test_tuple_line_def test_loads_def test_line1_def test_line2_def strip_def
      isspace_def)

theorem write_ndjson_load_ndjson_witness:
  "list_all (round_trips test_dump test_loads) [test_entity1, test_entity2]
   \<and> open_write empty_fs (ndjson_path ''./test_exports'' ''test_entities'') = None
   \<and> test_console (ExportedMsg 2 ''test_entities'' (ndjson_path ''./test_exports'' ''test_entities''))
       = None
   \<and> fst (write_ndjson test_console test_dump [test_entity1, test_entity2] ''test_entities''
            ''./test_exports'' empty_fs) = Inr 2
   \<and> snd (write_ndjson test_console test_dump [test_entity1, test_entity2] ''test_entities''
            ''./test_exports'' empty_fs)
       = empty_fs((''./test_exports'', ''test_entities.ndjson'') :=
               Text (test_line1 @ [LF] @ test_line2 @ [LF]))
   \<and> load_ndjson test_console test_loads
        (snd (write_ndjson test_console test_dump [test_entity1, test_entity2] ''test_entities''
                ''./test_exports'' empty_fs))
        (ndjson_path ''./test_exports'' ''test_entities'')
       = Inr [test_entity1, test_entity2]"
proof -
  have r1: "round_trips test_dump test_loads test_entity1"
    by (simp add: round_trips_def test_dump_values test_loads_values)
       (simp add: test_line1_def isspace_def)
  have r2: "round_trips test_dump test_loads test_entity2"
    by (simp add: round_trips_def test_dump_values test_loads_values)
       (simp add: test_line2_def isspace_def)
  have h1: "list_all (round_trips test_dump test_loads) [test_entity1, test_entity2]"
    using r1 r2 by simp
  have h2: "open_write empty_fs (ndjson_path ''./test_exports'' ''test_entities'') = None"
    by (simp add: open_write_def empty_fs_def)
  have p: "test_console
      (ExportedMsg 2 ''test_entities'' (ndjson_path ''./test_exports'' ''test_entities'')) = None"
    by (simp add: test_console_def ndjson_path_def)
  have p': "test_console
      (ExportedMsg (length [test_entity1, test_entity2]) ''test_entities''
         (ndjson_path ''./test_exports'' ''test_entities'')) = None"
    by (simp add: test_console_def ndjson_path_def)
  have w: "snd (write_ndjson test_console test_dump [test_entity1, test_entity2] ''test_entities''
            ''./test_exports'' empty_fs)
       = empty_fs((''./test_exports'', ''test_entities.ndjson'') :=
               Text (test_line1 @ [LF] @ test_line2 @ [LF]))"
  proof -
    have ps: "test_console
        (ExportedMsg (Suc (Suc 0)) ''test_entities'' (''./test_exports'', ''test_entities.ndjson''))
        = None"
      by (simp add: test_console_def)
    show ?thesis
      by (simp add: write_ndjson_def write_ndjson_body_def test_dump_values saying_def
          ndjson_path_def open_write_def empty_fs_def Let_def ps)
  qed
  from write_ndjson_load_ndjson
    [where dump = test_dump and loads = test_loads and fs = empty_fs and out = test_console
       and out' = test_console
       and output_dir = "''./test_exports''" and filename = "''test_entities''", OF h1 h2] p'
  have "fst (write_ndjson test_console test_dump [test_entity1, test_entity2] ''test_entities''
            ''./test_exports'' empty_fs) = Inr 2"
    and "load_ndjson test_console test_loads
        (snd (write_ndjson test_console test_dump [test_entity1, test_entity2] ''test_entities''
                ''./test_exports'' empty_fs))
        (ndjson_path ''./test_exports'' ''test_entities'')
       = Inr [test_entity1, test_entity2]"
    by simp_all
  with h1 h2 p w show ?thesis by (intro conjI)
qed

text \<open>
  Claim C1 as stated fails on an entity with a tuple, which has string keys and is
  written as it is, nothing coerced: the list that is loaded holds a list in the place
  of the tuple.
\<close>

theorem write_ndjson_load_ndjson_tuple:
  "write_ndjson test_console test_dump [test_tuple_entity] ''test_entities'' ''./test_exports''
     empty_fs
     = (Inr 1, empty_fs((''./test_exports'', ''test_entities.ndjson'') :=
                 Text (test_tuple_line @ [LF])))
   \<and> load_ndjson test_console test_loads
        (empty_fs((''./test_exports'', ''test_entities.ndjson'') := Text (test_tuple_line @ [LF])))
        (''./test_exports'', ''test_entities.ndjson'')
       = Inr [test_list_entity]
   \<and> test_list_entity \<noteq> test_tuple_entity"
proof -
  have p: "test_console
      (ExportedMsg (Suc 0) ''test_entities'' (''./test_exports'', ''test_entities.ndjson'')) = None"
    by (simp add: test_console_def)
  have 1: "write_ndjson test_console test_dump [test_tuple_entity] ''test_entities''
      ''./test_exports'' empty_fs
     = (Inr 1, empty_fs((''./test_exports'', ''test_entities.ndjson'') :=
                 Text (test_tuple_line @ [LF])))"
    by (simp add: write_ndjson_def write_ndjson_body_def test_dump_values saying_def
        ndjson_path_def open_write_def empty_fs_def p)
  have 2: "load_ndjson test_console test_loads
        (empty_fs((''./test_exports'', ''test_entities.ndjson'') := Text (test_tuple_line @ [LF])))
        (''./test_exports'', ''test_entities.ndjson'')
       = Inr [test_list_entity]"
    by (simp add: load_ndjson_def load_ndjson_body_def open_read_def test_tuple_line_facts)
  have 3: "test_list_entity \<noteq> test_tuple_entity"
    by (simp add: test_list_entity_def test_tuple_entity_def)
  from 1 2 3 show ?thesis by (intro conjI)
qed

section \<open>Properties of the exporter\<close>

lemma export_entity_type_client:
  "console env (ExportingMsg entity_name) = None \<Longrightarrow>
   fst (snd (export_entity_type env entity_name entity_class output_dir c fs)) =
     snd (list_entities env entity_class c)"
  by (simp add: export_entity_type_def export_entity_type_body_def export_entity_dicts_def
      saying_def Let_def split: prod.splits sum.splits option.splits)


lemma export_entities_keys:
  "export_entities env ws output_dir n st fs = (Inr n', st', fs') \<Longrightarrow>
     fst ` set (export_stats st') = fst ` set (export_stats st) \<union> fst ` set ws"
proof (induction ws arbitrary: n st fs)
  case Nil
  then show ?case by simp
next
  case (Cons x ws)
  obtain entity_name entity_class where x: "x = (entity_name, entity_class)" by (cases x)
  obtain r c' fs1 where
    e: "export_entity_type env entity_name entity_class output_dir (om_client st) fs = (r, c', fs1)"
    by (cases "export_entity_type env entity_name entity_class output_dir (om_client st) fs")
  from Cons.prems obtain count where r: "r = Inr count"
    by (cases r) (simp_all add: x e)
  let ?st1 = "st\<lparr>om_client := c',
                export_stats := AList.update entity_name count (export_stats st)\<rparr>"
  from Cons.prems have
    "export_entities env ws output_dir (n + count) ?st1 fs1 = (Inr n', st', fs')"
    by (simp add: x e r)
  from Cons.IH [OF this] show ?case
    by (simp add: x dom_update Un_assoc [symmetric] insert_commute)
qed

lemma export_entities_client:
  "export_entities env ws output_dir n st fs = (Inr n', st', fs') \<Longrightarrow>
   list_all (\<lambda>(name, entity_class). console env (ExportingMsg name) = None) ws \<Longrightarrow>
   om_client st' =
     foldl (\<lambda>c (entity_name, entity_class). snd (list_entities env entity_class c))
       (om_client st) ws"
proof (induction ws arbitrary: n st fs)
  case Nil
  then show ?case by simp
next
  case (Cons x ws)
  obtain entity_name entity_class where x: "x = (entity_name, entity_class)" by (cases x)
  obtain r c' fs1 where
    e: "export_entity_type env entity_name entity_class output_dir (om_client st) fs = (r, c', fs1)"
    by (cases "export_entity_type env entity_name entity_class output_dir (om_client st) fs")
  from Cons.prems(1) obtain count where r: "r = Inr count"
    by (cases r) (simp_all add: x e)
  from Cons.prems(2) have p: "console env (ExportingMsg entity_name) = None"
    and ps: "list_all (\<lambda>(name, entity_class). console env (ExportingMsg name) = None) ws"
    by (simp_all add: x)
  from export_entity_type_client [OF p, of entity_class output_dir "om_client st" fs] e
  have c': "c' = snd (list_entities env entity_class (om_client st))" by simp
  let ?st1 = "st\<lparr>om_client := c',
                export_stats := AList.update entity_name count (export_stats st)\<rparr>"
  from Cons.prems(1) have
    "export_entities env ws output_dir (n + count) ?st1 fs1 = (Inr n', st', fs')"
    by (simp add: x e r)
  from Cons.IH [OF this ps] show ?case
    by (simp add: x c')
qed



lemma reaches_loop_export_all:
  "reaches_loop env selected_entities st fs output_dir fs1 working_set \<Longrightarrow>
   export_all env selected_entities st fs =
     export_all_finish env output_dir (export_entities env working_set output_dir 0 st fs1)"
  by (simp add: reaches_loop_def export_all_def saying_def split: sum.splits)



lemma test_export_reaches_loop:
  "reaches_loop (test_export_env_raising what) None test_exporter empty_fs ''./test_exports'' empty_fs
     ([] @ (''teams'', Team) # [(''domains'', Domain_class)])"
  by (simp add: reaches_loop_def test_export_env_raising_def test_console_def test_exporter_def
      test_export_config_def getitem2_def bind_exn_def ensure_output_dir_def
      entities_to_export_def entity_mappings_def dict_get_def)

lemma test_export_teams:
  "\<not> closing_tag what \<Longrightarrow>
   export_entity_type (test_export_env_raising what) ''teams'' Team ''./test_exports'' c fs
     = (Inr 0, c + 1, fs)"
  by (simp add: export_entity_type_def export_entity_type_body_def export_entity_dicts_def
      test_export_env_raising_def test_console_def saying_def)

lemma test_export_teams_markup:
  "closing_tag what \<Longrightarrow>
   export_entity_type (test_export_env_raising what) ''teams'' Team ''./test_exports'' c fs
     = (Inl MarkupError, c + 1, fs)"
  by (simp add: export_entity_type_def export_entity_type_body_def export_entity_dicts_def
      test_export_env_raising_def test_console_def saying_def)

lemma test_export_domains:
  "export_entity_type (test_export_env_raising what) ''domains'' Domain_class ''./test_exports'' c
     empty_fs
     = (Inr 1, c + 1, empty_fs((''./test_exports'', ''domains.ndjson'') := Text (test_line1 @ [LF])))"
  by (simp add: export_entity_type_def export_entity_type_body_def export_entity_dicts_def
      test_export_env_raising_def test_console_def saying_def
      test_object_def entity_dict_def write_ndjson_def write_ndjson_body_def ndjson_path_def
      open_write_def empty_fs_def test_dump_def Let_def)



lemma test_export_loop:
  "\<not> closing_tag what \<Longrightarrow>
   export_entities (test_export_env_raising what) ([] @ (''teams'', Team) # [(''domains'', Domain_class)])
     ''./test_exports'' 0 test_exporter empty_fs
     = (Inr 1,
        \<lparr>config = test_export_config, om_client = 2,
           export_stats = [(''teams'', 0), (''domains'', 1)]\<rparr>,
        empty_fs((''./test_exports'', ''domains.ndjson'') := Text (test_line1 @ [LF])))"
  by (simp add: test_export_teams test_export_domains) (simp add: test_exporter_def)

lemma test_export_loop_markup:
  "closing_tag what \<Longrightarrow>
   export_entities (test_export_env_raising what) ([] @ (''teams'', Team) # [(''domains'', Domain_class)])
     ''./test_exports'' 0 test_exporter empty_fs
     = (Inl MarkupError, test_exporter\<lparr>om_client := 1\<rparr>, empty_fs)"
  by (simp add: test_export_teams_markup) (simp add: test_exporter_def)

lemma test_export_all:
  "export_all test_export_env None test_exporter empty_fs
     = (Inr (),
        \<lparr>config = test_export_config, om_client = 2,
           export_stats = [(''teams'', 0), (''domains'', 1)]\<rparr>,
        empty_fs((''./test_exports'', ''domains.ndjson'') := Text (test_line1 @ [LF]),
                 (''./test_exports'', ''export_summary.json'') := Text ''{}''))"
proof -
  have n: "\<not> closing_tag ''timeout''" by simp
  have c: "console test_export_env = test_console"
    "json_dump_indent test_export_env = (\<lambda>v. Dumped ''{}'')"
    by (simp_all add: test_export_env_def test_export_env_raising_def)
  show ?thesis
    unfolding reaches_loop_export_all [OF test_export_reaches_loop [of "''timeout''"],
        folded test_export_env_def]
      test_export_loop [OF n, folded test_export_env_def]
    by (simp add: export_all_finish_def create_export_summary_def export_summary_def c
        test_export_config_def getitem2_def bind_exn_def open_write_def empty_fs_def
        test_console_def saying_def Let_def)
qed

lemma test_export_all_markup:
  "closing_tag what \<Longrightarrow>
   export_all (test_export_env_raising what) None test_exporter empty_fs
     = (Inl MarkupError, test_exporter\<lparr>om_client := 1\<rparr>, empty_fs)"
  unfolding reaches_loop_export_all [OF test_export_reaches_loop [of what]]
  by (simp only: test_export_loop_markup) (simp add: export_all_finish_def)



lemma export_all_returns:
  "export_all env selected_entities st fs = (Inr u, st', fs') \<Longrightarrow>
   (case ensure_output_dir env (config st) fs of
      Inl e \<Rightarrow> False
    | Inr (output_dir, fs1) \<Rightarrow>
        (case entities_to_export selected_entities (config st) of
           Inl e \<Rightarrow> False
         | Inr working_set \<Rightarrow>
             export_all_finish env output_dir
               (export_entities env working_set output_dir 0 st fs1) = (Inr u, st', fs')))"
  by (simp add: export_all_def saying_def split: option.splits sum.splits prod.splits)

lemma export_all_finish_returns:
  "export_all_finish env output_dir loop = (Inr u, st', fs') \<Longrightarrow>
   (case loop of (Inl e, st2, fs2) \<Rightarrow> False | (Inr n, st2, fs2) \<Rightarrow> st2 = st')"
  by (simp add: export_all_finish_def saying_def split: option.splits sum.splits prod.splits)

lemma fst_set_filter_enabled:
  "fst ` set (filter (\<lambda>(name, entity_class). P name) xs) = {name \<in> fst ` set xs. P name}"
  by force

lemma list_all_filter: "list_all P xs \<Longrightarrow> list_all P (filter Q xs)"
  by (induction xs) simp_all

text \<open>
  Claim C3, as amended. When \<^verbatim>\<open>export_all\<close> is called without a selection, on a
  configuration that holds the flags of the entity types, and returns: the working set
  is the known types whose flag is true, in the order of \<^verbatim>\<open>entity_mappings\<close>; these are
  the types that get a statistics entry, next to the entries there were; and when the
  first print of each export goes through, the client has had one listing call for
  each of them, in that order, and no other. For the flags
  \<open>{domains: true, teams: true, data_products: false}\<close> they are teams and domains.
\<close>

theorem export_all_enabled_types:
  assumes sel: "selected_entities = None \<or> selected_entities = Some []"
    and flags: "getitem2 (config st) ''export'' ''entities'' = Inr (PDict flags)"
    and ret: "export_all env selected_entities st fs = (Inr (), st', fs')"
  shows "entities_to_export selected_entities (config st) =
           Inr (filter (\<lambda>(name, entity_class). enabled flags name) entity_mappings)
       \<and> fst ` set (export_stats st') =
           fst ` set (export_stats st) \<union> {name \<in> fst ` set entity_mappings. enabled flags name}
       \<and> (list_all (\<lambda>(name, entity_class). console env (ExportingMsg name) = None)
             entity_mappings \<longrightarrow>
           om_client st' =
             foldl (\<lambda>c (entity_name, entity_class). snd (list_entities env entity_class c))
               (om_client st)
               (filter (\<lambda>(name, entity_class). enabled flags name) entity_mappings))"
proof -
  let ?ws = "filter (\<lambda>(name, entity_class). enabled flags name) entity_mappings"
  have en: "truthy (dict_get flags name (PBool False)) = enabled flags name" for name
    by (simp add: dict_get_def enabled_def split: option.split)
  from sel have ws: "entities_to_export selected_entities (config st) = Inr ?ws"
    by (auto simp: entities_to_export_def flags bind_exn_def en)
  from export_all_returns [OF ret] obtain output_dir fs1 where
    fin: "export_all_finish env output_dir (export_entities env ?ws output_dir 0 st fs1)
            = (Inr (), st', fs')"
    by (cases "ensure_output_dir env (config st) fs") (auto simp: ws)
  obtain r st2 fs2 where
    loop: "export_entities env ?ws output_dir 0 st fs1 = (r, st2, fs2)"
    by (cases "export_entities env ?ws output_dir 0 st fs1")
  from export_all_finish_returns [OF fin] loop obtain n where r: "r = Inr n" and st2: "st2 = st'"
    by (cases r) simp_all
  from loop r st2 have loop': "export_entities env ?ws output_dir 0 st fs1 = (Inr n, st', fs2)"
    by simp
  have keys: "fst ` set (export_stats st') =
      fst ` set (export_stats st) \<union> {name \<in> fst ` set entity_mappings. enabled flags name}"
    using export_entities_keys [OF loop'] by (simp only: fst_set_filter_enabled)
  have calls: "list_all (\<lambda>(name, entity_class). console env (ExportingMsg name) = None)
             entity_mappings \<longrightarrow>
           om_client st' =
             foldl (\<lambda>c (entity_name, entity_class). snd (list_entities env entity_class c))
               (om_client st) ?ws"
  proof
    assume "list_all (\<lambda>(name, entity_class). console env (ExportingMsg name) = None)
        entity_mappings"
    then have "list_all (\<lambda>(name, entity_class). console env (ExportingMsg name) = None) ?ws"
      by (rule list_all_filter)
    with loop' show "om_client st' =
             foldl (\<lambda>c (entity_name, entity_class). snd (list_entities env entity_class c))
               (om_client st) ?ws"
      by (rule export_entities_client)
  qed
  from ws keys calls show ?thesis by (intro conjI)
qed

lemma test_enabled_types:
  "filter (\<lambda>(name, entity_class).
      enabled [(''domains'', PBool True), (''teams'', PBool True), (''data_products'', PBool False)]
        name) entity_mappings
     = [(''teams'', Team), (''domains'', Domain_class)]"
  by (simp add: entity_mappings_def enabled_def)

lemma test_export_flags:
  "getitem2 (config test_exporter) ''export'' ''entities'' =
     Inr (PDict [(''domains'', PBool True), (''teams'', PBool True), (''data_products'', PBool False)])"
  by (simp add: test_exporter_def test_export_config_def getitem2_def bind_exn_def)

theorem export_all_enabled_types_witness:
  "getitem2 (config test_exporter) ''export'' ''entities'' =
     Inr (PDict [(''domains'', PBool True), (''teams'', PBool True), (''data_products'', PBool False)])
   \<and> fst (export_all test_export_env None test_exporter empty_fs) = Inr ()
   \<and> list_all (\<lambda>(name, entity_class). console test_export_env (ExportingMsg name) = None)
        entity_mappings
   \<and> entities_to_export None (config test_exporter) =
       Inr [(''teams'', Team), (''domains'', Domain_class)]
   \<and> fst ` set (export_stats (fst (snd (export_all test_export_env None test_exporter empty_fs))))
       = {''teams'', ''domains''}
   \<and> om_client (fst (snd (export_all test_export_env None test_exporter empty_fs))) = 2"
proof -
  have h1: "(None :: string list option) = None \<or> (None :: string list option) = Some []" by simp
  have p: "list_all (\<lambda>(name, entity_class). console test_export_env (ExportingMsg name) = None)
        entity_mappings"
    by (simp add: entity_mappings_def test_export_env_def test_export_env_raising_def
        test_console_def)
  have c: "om_client test_exporter = 0" "export_stats test_exporter = []"
    by (simp_all add: test_exporter_def)
  have k: "{name \<in> fst ` set entity_mappings.
        enabled [(''domains'', PBool True), (''teams'', PBool True), (''data_products'', PBool False)]
          name} = {''teams'', ''domains''}"
    by (simp only: fst_set_filter_enabled [symmetric] test_enabled_types) simp
  have l: "list_entities test_export_env = (\<lambda>entity_class c.
        (if entity_class = Team then Inl (OtherError ''timeout'') else Inr (Some [test_object]),
         c + 1))"
    by (simp add: test_export_env_def test_export_env_raising_def)
  note enabled_types = export_all_enabled_types [OF h1 test_export_flags test_export_all]
  from enabled_types have 1: "entities_to_export None (config test_exporter) =
       Inr [(''teams'', Team), (''domains'', Domain_class)]"
    by (simp only: test_enabled_types)
  from enabled_types
  have 2: "fst ` set (export_stats (fst (snd (export_all test_export_env None test_exporter
      empty_fs)))) = {''teams'', ''domains''}"
    by (simp only: k test_export_all fst_conv snd_conv) (simp add: c)
  from enabled_types p
  have 3: "om_client (fst (snd (export_all test_export_env None test_exporter empty_fs))) = 2"
    by (simp only: test_enabled_types test_export_all fst_conv snd_conv) (simp add: c l)
  have r: "fst (export_all test_export_env None test_exporter empty_fs) = Inr ()"
    by (simp only: test_export_all fst_conv)
  from test_export_flags r p 1 2 3 show ?thesis by (intro conjI)
qed

text \<open>
  Claim C3 as stated fails on a call that \<^verbatim>\<open>export_all\<close> does not finish. When the print
  of the failure of the first type raises, no type has a statistics entry and the
  client has had one listing call; when the output directory cannot be created, no
  type is exported at all.
\<close>

theorem export_all_enabled_types_markup:
  "getitem2 (config test_exporter) ''export'' ''entities'' =
     Inr (PDict [(''domains'', PBool True), (''teams'', PBool True), (''data_products'', PBool False)])
   \<and> export_stats test_exporter = []
   \<and> om_client test_exporter = 0
   \<and> fst (export_all (test_export_env_raising ''timeout [/x]'') None test_exporter empty_fs)
       = Inl MarkupError
   \<and> export_stats (fst (snd (export_all (test_export_env_raising ''timeout [/x]'') None
        test_exporter empty_fs))) = []
   \<and> om_client (fst (snd (export_all (test_export_env_raising ''timeout [/x]'') None
        test_exporter empty_fs))) = 1
   \<and> export_all test_export_env_no_directory None test_exporter empty_fs
       = (Inl (OtherError ''Permission denied''), test_exporter, empty_fs)"
proof -
  have t: "closing_tag ''timeout [/x]''" by simp
  have c: "export_stats test_exporter = []" "om_client test_exporter = 0"
    by (simp_all add: test_exporter_def)
  have e: "console test_export_env_no_directory = test_console"
    "mkdir test_export_env_no_directory = (\<lambda>d fs. Inl (OtherError ''Permission denied''))"
    by (simp_all add: test_export_env_no_directory_def test_export_env_def
        test_export_env_raising_def)
  have u: "getitem2 (config test_exporter) ''openmetadata'' ''server_url'' =
      Inr (PStr ''http://test.example.com'')"
    by (simp add: test_exporter_def test_export_config_def getitem2_def bind_exn_def)
  have p: "test_console StartingMsg = None"
    "test_console (ServerMsg (PStr ''http://test.example.com'')) = None"
    "test_console ApiMethodMsg = None"
    by (simp_all add: test_console_def)
  have d: "ensure_output_dir test_export_env_no_directory (config test_exporter) empty_fs =
      Inl (OtherError ''Permission denied'')"
    by (simp add: ensure_output_dir_def e test_exporter_def test_export_config_def getitem2_def
        bind_exn_def)
  have m: "export_all test_export_env_no_directory None test_exporter empty_fs
       = (Inl (OtherError ''Permission denied''), test_exporter, empty_fs)"
    by (simp add: export_all_def e u p d saying_def)
  show ?thesis
    by (simp only: test_export_all_markup [OF t] fst_conv snd_conv test_export_flags m)
       (simp add: c)
qed

end
